theory Spec2Isabelle
  imports Complex_Main
begin

section \<open>Values and errors\<close>

text \<open>
  The notebook \<^verbatim>\<open>4_regression.ipynb\<close> works on numpy arrays of floats. A
  float is a real number or one of the three non-finite values that numpy
  produces instead of raising: the mean of an empty slice and \<^verbatim>\<open>0/0\<close> are
  \<^verbatim>\<open>nan\<close>, and \<^verbatim>\<open>x/0\<close> is an infinity. The arithmetic on the array entries
  (\<open>np_add\<close> to \<open>np_sqrt\<close>) is exact on the finite values: it does not round,
  overflow or underflow. The product that decides the split point is rounded
  to binary64 (\<open>fl64\<close>), since the sizes of the partitions depend on its
  rounding.
\<close>

datatype py_error = IndexError | ValueError | AttributeError | OverflowError

datatype npfloat = Fin real | PInf | NInf | NaN

fun is_Fin :: "npfloat \<Rightarrow> bool" where
  "is_Fin (Fin a) = True"
| "is_Fin PInf = False"
| "is_Fin NInf = False"
| "is_Fin NaN = False"

fun np_neg :: "npfloat \<Rightarrow> npfloat" where
  "np_neg (Fin a) = Fin (- a)"
| "np_neg PInf = NInf"
| "np_neg NInf = PInf"
| "np_neg NaN = NaN"

fun np_add :: "npfloat \<Rightarrow> npfloat \<Rightarrow> npfloat" where
  "np_add (Fin a) (Fin b) = Fin (a + b)"
| "np_add (Fin a) PInf = PInf"
| "np_add (Fin a) NInf = NInf"
| "np_add (Fin a) NaN = NaN"
| "np_add PInf (Fin b) = PInf"
| "np_add PInf PInf = PInf"
| "np_add PInf NInf = NaN"
| "np_add PInf NaN = NaN"
| "np_add NInf (Fin b) = NInf"
| "np_add NInf PInf = NaN"
| "np_add NInf NInf = NInf"
| "np_add NInf NaN = NaN"
| "np_add NaN b = NaN"

definition np_sub :: "npfloat \<Rightarrow> npfloat \<Rightarrow> npfloat" where
  "np_sub a b = np_add a (np_neg b)"

fun np_mul :: "npfloat \<Rightarrow> npfloat \<Rightarrow> npfloat" where
  "np_mul (Fin a) (Fin b) = Fin (a * b)"
| "np_mul (Fin a) PInf = (if a = 0 then NaN else if 0 < a then PInf else NInf)"
| "np_mul (Fin a) NInf = (if a = 0 then NaN else if 0 < a then NInf else PInf)"
| "np_mul (Fin a) NaN = NaN"
| "np_mul PInf (Fin b) = (if b = 0 then NaN else if 0 < b then PInf else NInf)"
| "np_mul PInf PInf = PInf"
| "np_mul PInf NInf = NInf"
| "np_mul PInf NaN = NaN"
| "np_mul NInf (Fin b) = (if b = 0 then NaN else if 0 < b then NInf else PInf)"
| "np_mul NInf PInf = NInf"
| "np_mul NInf NInf = PInf"
| "np_mul NInf NaN = NaN"
| "np_mul NaN b = NaN"

text \<open>
  \<^verbatim>\<open>numpy.true_divide\<close> on floats never raises: a zero divisor gives \<^verbatim>\<open>nan\<close> or an
  infinity (with a \<^verbatim>\<open>RuntimeWarning\<close>). The reals have no signed zero; the zero
  divisors of this program are a row count and a square root, both \<^verbatim>\<open>+0.0\<close>.
\<close>

fun np_div :: "npfloat \<Rightarrow> npfloat \<Rightarrow> npfloat" where
  "np_div (Fin a) (Fin b) =
     (if b \<noteq> 0 then Fin (a / b)
      else if a = 0 then NaN else if 0 < a then PInf else NInf)"
| "np_div (Fin a) PInf = Fin 0"
| "np_div (Fin a) NInf = Fin 0"
| "np_div (Fin a) NaN = NaN"
| "np_div PInf (Fin b) = (if 0 \<le> b then PInf else NInf)"
| "np_div PInf PInf = NaN"
| "np_div PInf NInf = NaN"
| "np_div PInf NaN = NaN"
| "np_div NInf (Fin b) = (if 0 \<le> b then NInf else PInf)"
| "np_div NInf PInf = NaN"
| "np_div NInf NInf = NaN"
| "np_div NInf NaN = NaN"
| "np_div NaN b = NaN"

fun np_sqrt :: "npfloat \<Rightarrow> npfloat" where
  "np_sqrt (Fin a) = (if a < 0 then NaN else Fin (sqrt a))"
| "np_sqrt PInf = PInf"
| "np_sqrt NInf = NaN"
| "np_sqrt NaN = NaN"

section \<open>Rounding to binary64\<close>

text \<open>
  Round to nearest, ties to even: \<open>quantum x\<close> is the distance between the
  doubles around \<open>x\<close> (53 significant bits, subnormals below \<open>2 powi (- 1022)\<close>),
  and a result of magnitude \<open>2 ^ 1024\<close> or more overflows to an infinity.
\<close>

definition round_half_even :: "real \<Rightarrow> int" where
  "round_half_even y =
     (let n = \<lfloor>y\<rfloor>; d = y - of_int n
      in if d < 1 / 2 then n else if 1 / 2 < d then n + 1 else if even n then n else n + 1)"

definition quantum :: "real \<Rightarrow> real" where
  "quantum x = 2 powi (max (\<lfloor>log 2 \<bar>x\<bar>\<rfloor> - 52) (- 1074))"

definition fl64 :: "real \<Rightarrow> npfloat" where
  "fl64 x =
     (if x = 0 then Fin 0
      else let y = of_int (round_half_even (x / quantum x)) * quantum x
           in if 2 ^ 1024 \<le> \<bar>y\<bar> then (if 0 < x then PInf else NInf) else Fin y)"

fun np_round :: "npfloat \<Rightarrow> npfloat" where
  "np_round (Fin x) = fl64 x"
| "np_round PInf = PInf"
| "np_round NInf = NInf"
| "np_round NaN = NaN"

section \<open>Arrays\<close>

text \<open>
  A 2-D array of shape \<open>(length rows, ncols)\<close>. The column count is a field of
  its own: an array with no rows still has a shape. A 1-D array is a list.
\<close>

record 'a ndarray =
  ncols :: nat
  rows :: "'a list list"

definition wf_ndarray :: "'a ndarray \<Rightarrow> bool" where
  "wf_ndarray a = list_all (\<lambda>r. length r = ncols a) (rows a)"

definition column :: "'a ndarray \<Rightarrow> nat \<Rightarrow> 'a list" where
  "column a j = map (\<lambda>r. r ! j) (rows a)"

text \<open>
  Python's reading of an integer index \<open>i\<close> on an axis of length \<open>n\<close>: the
  indices from \<open>-n\<close> to \<open>n - 1\<close> are in bounds, the negative ones count from the
  end.
\<close>

definition py_index :: "nat \<Rightarrow> int \<Rightarrow> nat option" where
  "py_index n i =
     (if 0 \<le> i \<and> i < int n then Some (nat i)
      else if - int n \<le> i \<and> i < 0 then Some (nat (int n + i))
      else None)"

text \<open>Python's reading of a slice bound \<open>i\<close> on an axis of length \<open>n\<close>.\<close>

definition slice_bound :: "nat \<Rightarrow> int \<Rightarrow> nat" where
  "slice_bound n i = (if i < 0 then nat (max 0 (int n + i)) else min n (nat i))"

text \<open>\<^verbatim>\<open>a[:i]\<close> and \<^verbatim>\<open>a[i:]\<close>: slices along axis 0.\<close>

definition rows_upto :: "'a ndarray \<Rightarrow> int \<Rightarrow> 'a ndarray" where
  "rows_upto a i = a\<lparr>rows := take (slice_bound (length (rows a)) i) (rows a)\<rparr>"

definition rows_from :: "'a ndarray \<Rightarrow> int \<Rightarrow> 'a ndarray" where
  "rows_from a i = a\<lparr>rows := drop (slice_bound (length (rows a)) i) (rows a)\<rparr>"

text \<open>\<^verbatim>\<open>a[:, i]\<close>: an integer index on axis 1 raises when it is out of bounds.\<close>

definition col_index :: "'a ndarray \<Rightarrow> int \<Rightarrow> py_error + 'a list" where
  "col_index a i =
     (case py_index (ncols a) i of
        None \<Rightarrow> Inl IndexError
      | Some j \<Rightarrow> Inr (column a j))"

text \<open>\<^verbatim>\<open>a[:, :i]\<close>: a slice on axis 1 never raises.\<close>

definition cols_upto :: "'a ndarray \<Rightarrow> int \<Rightarrow> 'a ndarray" where
  "cols_upto a i =
     (let c = slice_bound (ncols a) i
      in \<lparr>ncols = c, rows = map (take c) (rows a)\<rparr>)"

text \<open>\<^verbatim>\<open>v[i] = x\<close> on a 1-D array.\<close>

definition setitem :: "'a list \<Rightarrow> int \<Rightarrow> 'a \<Rightarrow> py_error + 'a list" where
  "setitem v i x =
     (case py_index (length v) i of
        None \<Rightarrow> Inl IndexError
      | Some j \<Rightarrow> Inr (v[j := x]))"

text \<open>
  \<^verbatim>\<open>a.sum()\<close>, \<^verbatim>\<open>a.mean()\<close> and \<^verbatim>\<open>a.std()\<close> of a 1-D array, as numpy computes
  them: the sum divided by the count, and the square root of the mean of the
  squared deviations (\<^verbatim>\<open>ddof=0\<close>). On an empty array the count is zero and both
  are \<^verbatim>\<open>nan\<close>.
\<close>

definition np_sum :: "npfloat list \<Rightarrow> npfloat" where
  "np_sum xs = foldl np_add (Fin 0) xs"

definition np_mean :: "npfloat list \<Rightarrow> npfloat" where
  "np_mean xs = np_div (np_sum xs) (Fin (real (length xs)))"

definition np_var :: "npfloat list \<Rightarrow> npfloat" where
  "np_var xs =
     (let arrmean = np_mean xs;
          x = map (\<lambda>a. np_sub a arrmean) xs;
          x2 = map (\<lambda>a. np_mul a a) x
      in np_div (np_sum x2) (Fin (real (length xs))))"

definition np_std :: "npfloat list \<Rightarrow> npfloat" where
  "np_std xs = np_sqrt (np_var xs)"

text \<open>\<^verbatim>\<open>a.mean(axis=0)\<close> and \<^verbatim>\<open>a.std(axis=0)\<close>: one value per column.\<close>

definition mean_axis0 :: "npfloat ndarray \<Rightarrow> npfloat list" where
  "mean_axis0 a = map (\<lambda>j. np_mean (column a j)) [0..<ncols a]"

definition std_axis0 :: "npfloat ndarray \<Rightarrow> npfloat list" where
  "std_axis0 a = map (\<lambda>j. np_std (column a j)) [0..<ncols a]"

text \<open>
  \<^verbatim>\<open>a - v\<close> and \<^verbatim>\<open>a / v\<close> for a 2-D array \<open>a\<close> and a 1-D array \<open>v\<close>: \<open>v\<close> is
  broadcast along the rows; shapes that do not match raise.
\<close>

definition broadcast :: "('a \<Rightarrow> 'b \<Rightarrow> 'c) \<Rightarrow> 'a ndarray \<Rightarrow> 'b list \<Rightarrow> py_error + 'c ndarray" where
  "broadcast f a v =
     (if length v = ncols a
      then Inr \<lparr>ncols = ncols a, rows = map (\<lambda>r. map2 f r v) (rows a)\<rparr>
      else Inl ValueError)"

section \<open>split_and_preprocess\<close>

text \<open>
  Line 156, \<^verbatim>\<open>int(data.shape[0] * train_fraction)\<close>, for a row count \<open>n\<close> and a
  float \<^verbatim>\<open>train_fraction\<close>. Python converts the int to a float (correctly rounded,
  \<^verbatim>\<open>OverflowError\<close> when it is too large), multiplies in binary64, and \<^verbatim>\<open>int\<close>
  truncates towards zero, raising \<^verbatim>\<open>OverflowError\<close> on an infinity and
  \<^verbatim>\<open>ValueError\<close> on \<^verbatim>\<open>nan\<close>.
\<close>

definition py_float :: "nat \<Rightarrow> py_error + npfloat" where
  "py_float n = (case fl64 (real n) of Fin x \<Rightarrow> Inr (Fin x) | _ \<Rightarrow> Inl OverflowError)"

definition float_mul :: "npfloat \<Rightarrow> npfloat \<Rightarrow> npfloat" where
  "float_mul a b = np_round (np_mul a b)"

fun py_int :: "npfloat \<Rightarrow> py_error + int" where
  "py_int (Fin x) = Inr (if 0 \<le> x then \<lfloor>x\<rfloor> else \<lceil>x\<rceil>)"
| "py_int PInf = Inl OverflowError"
| "py_int NInf = Inl OverflowError"
| "py_int NaN = Inl ValueError"

definition split_point :: "nat \<Rightarrow> npfloat \<Rightarrow> py_error + int" where
  "split_point n train_fraction =
     (case py_float n of
        Inl e \<Rightarrow> Inl e
      | Inr x \<Rightarrow> py_int (float_mul x train_fraction))"

definition label_index :: int where
  "label_index = - 1"

text \<open>
  Lines 164 to 166: the statistics of the training partition, with the entries
  of the categorical column overwritten.
\<close>

definition normalization :: "npfloat ndarray \<Rightarrow> py_error + npfloat list \<times> npfloat list" where
  "normalization train =
     (let mean = mean_axis0 train; sigma = std_axis0 train
      in case setitem mean 0 (Fin 0) of
           Inl e \<Rightarrow> Inl e
         | Inr mean' \<Rightarrow>
             (case setitem sigma 0 (Fin 1) of
                Inl e \<Rightarrow> Inl e
              | Inr sigma' \<Rightarrow> Inr (mean', sigma')))"

text \<open>\<^verbatim>\<open>(a - mean) / sigma\<close>\<close>

definition standardize :: "npfloat ndarray \<Rightarrow> npfloat list \<Rightarrow> npfloat list \<Rightarrow> py_error + npfloat ndarray" where
  "standardize a mean sigma =
     (case broadcast np_sub a mean of
        Inl e \<Rightarrow> Inl e
      | Inr centred \<Rightarrow> broadcast np_div centred sigma)"

text \<open>Lines 160 and 161: the four slices of the input.\<close>

definition train_labels_of :: "'a ndarray \<Rightarrow> int \<Rightarrow> py_error + 'a list" where
  "train_labels_of data sp = col_index (rows_upto data sp) label_index"

definition test_labels_of :: "'a ndarray \<Rightarrow> int \<Rightarrow> py_error + 'a list" where
  "test_labels_of data sp = col_index (rows_from data sp) label_index"

definition train_of :: "'a ndarray \<Rightarrow> int \<Rightarrow> 'a ndarray" where
  "train_of data sp = cols_upto (rows_upto data sp) label_index"

definition test_of :: "'a ndarray \<Rightarrow> int \<Rightarrow> 'a ndarray" where
  "test_of data sp = cols_upto (rows_from data sp) label_index"

definition split_and_preprocess ::
  "npfloat ndarray \<Rightarrow> npfloat \<Rightarrow>
   py_error + npfloat ndarray \<times> npfloat list \<times> npfloat ndarray \<times> npfloat list" where
  "split_and_preprocess data train_fraction =
     (case split_point (length (rows data)) train_fraction of
        Inl e \<Rightarrow> Inl e
      | Inr sp \<Rightarrow>
        case train_labels_of data sp of
           Inl e \<Rightarrow> Inl e
         | Inr train_labels \<Rightarrow>
       (case test_labels_of data sp of
           Inl e \<Rightarrow> Inl e
         | Inr test_labels \<Rightarrow>
       (let train = train_of data sp; test = test_of data sp
        in case normalization train of
             Inl e \<Rightarrow> Inl e
           | Inr (mean, sigma) \<Rightarrow>
         (case standardize train mean sigma of
             Inl e \<Rightarrow> Inl e
           | Inr train_out \<Rightarrow>
         (case standardize test mean sigma of
             Inl e \<Rightarrow> Inl e
           | Inr test_out \<Rightarrow> Inr (train_out, train_labels, test_out, test_labels))))))"

section \<open>split_and_preprocess on a store\<close>

text \<open>
  numpy arrays are objects: basic slicing returns a view that shares the
  buffer of its base array, while \<^verbatim>\<open>mean\<close>, \<^verbatim>\<open>std\<close>, \<^verbatim>\<open>-\<close> and \<^verbatim>\<open>/\<close> allocate a
  new buffer. The store is the list of buffers allocated so far, an address is
  an index into it, and allocation appends.
\<close>

type_synonym addr = nat

datatype buffer = Buf1 "npfloat list" | Buf2 "npfloat ndarray"

type_synonym heap = "buffer list"

datatype rowsel = Upto int | From int

datatype colsel = Index int | Before int

text \<open>
  What a Python variable holds: an array that owns its buffer, or a view
  \<^verbatim>\<open>base[rows, cols]\<close> of the 2-D buffer of a base array.
\<close>

datatype aref = Owner addr | View addr rowsel colsel

fun select_rows :: "'a ndarray \<Rightarrow> rowsel \<Rightarrow> 'a ndarray" where
  "select_rows a (Upto i) = rows_upto a i"
| "select_rows a (From i) = rows_from a i"

fun select :: "npfloat ndarray \<Rightarrow> rowsel \<Rightarrow> colsel \<Rightarrow> py_error + buffer" where
  "select a rs (Index i) =
     (case col_index (select_rows a rs) i of Inl e \<Rightarrow> Inl e | Inr v \<Rightarrow> Inr (Buf1 v))"
| "select a rs (Before i) = Inr (Buf2 (cols_upto (select_rows a rs) i))"

text \<open>The contents seen through a reference, read from the store.\<close>

fun deref :: "heap \<Rightarrow> aref \<Rightarrow> buffer" where
  "deref h (Owner p) = h ! p"
| "deref h (View p rs cs) =
     (case h ! p of
        Buf2 a \<Rightarrow> (case select a rs cs of Inr b \<Rightarrow> b | Inl e \<Rightarrow> Buf1 [])
      | Buf1 v \<Rightarrow> Buf1 [])"

fun as2d :: "buffer \<Rightarrow> npfloat ndarray" where
  "as2d (Buf2 a) = a"
| "as2d (Buf1 v) = \<lparr>ncols = length v, rows = [v]\<rparr>"

fun as1d :: "buffer \<Rightarrow> npfloat list" where
  "as1d (Buf1 v) = v"
| "as1d (Buf2 a) = concat (rows a)"

text \<open>A computation on the store that may raise.\<close>

type_synonym 'a st = "heap \<Rightarrow> (py_error + 'a) \<times> heap"

definition return_st :: "'a \<Rightarrow> 'a st" where
  "return_st x h = (Inr x, h)"

definition bind_st :: "'a st \<Rightarrow> ('a \<Rightarrow> 'b st) \<Rightarrow> 'b st" where
  "bind_st m k h = (case m h of (Inl e, h') \<Rightarrow> (Inl e, h') | (Inr x, h') \<Rightarrow> k x h')"

definition lift_st :: "py_error + 'a \<Rightarrow> 'a st" where
  "lift_st r h = (r, h)"

definition alloc :: "buffer \<Rightarrow> aref st" where
  "alloc b h = (Inr (Owner (length h)), h @ [b])"

text \<open>
  \<^verbatim>\<open>base[rows, cols]\<close> with basic indices: bounds are checked when the view is
  made, nothing is copied and the store is unchanged.
\<close>

definition getitem :: "addr \<Rightarrow> rowsel \<Rightarrow> colsel \<Rightarrow> aref st" where
  "getitem p rs cs h =
     (case h ! p of
        Buf2 a \<Rightarrow>
          (case select a rs cs of
             Inl e \<Rightarrow> (Inl e, h)
           | Inr b \<Rightarrow> (Inr (View p rs cs), h))
      | Buf1 v \<Rightarrow> (Inl IndexError, h))"

text \<open>
  \<^verbatim>\<open>v[i] = x\<close> with a scalar \<open>x\<close>. On a 1-D array it stores one entry, on a 2-D
  array it fills row \<open>i\<close>; through a view the write lands in the buffer of the
  base array.
\<close>

fun row_offset :: "nat \<Rightarrow> rowsel \<Rightarrow> nat" where
  "row_offset n (Upto i) = 0"
| "row_offset n (From i) = slice_bound n i"

definition set_through :: "npfloat ndarray \<Rightarrow> rowsel \<Rightarrow> colsel \<Rightarrow> int \<Rightarrow> npfloat \<Rightarrow>
    py_error + npfloat ndarray" where
  "set_through a rs cs i x =
     (case py_index (length (rows (select_rows a rs))) i of
        None \<Rightarrow> Inl IndexError
      | Some j \<Rightarrow>
          (let r = row_offset (length (rows a)) rs + j;
               row = rows a ! r
           in case cs of
                Index c \<Rightarrow>
                  (case py_index (ncols a) c of
                     None \<Rightarrow> Inl IndexError
                   | Some c' \<Rightarrow> Inr (a\<lparr>rows := (rows a)[r := row[c' := x]]\<rparr>))
              | Before c \<Rightarrow>
                  (let w = slice_bound (ncols a) c
                   in Inr (a\<lparr>rows := (rows a)[r := replicate w x @ drop w row]\<rparr>))))"

definition setitem_st :: "aref \<Rightarrow> int \<Rightarrow> npfloat \<Rightarrow> unit st" where
  "setitem_st r i x h =
     (case r of
        Owner p \<Rightarrow>
          (case h ! p of
             Buf1 v \<Rightarrow>
               (case setitem v i x of
                  Inl e \<Rightarrow> (Inl e, h)
                | Inr v' \<Rightarrow> (Inr (), h[p := Buf1 v']))
           | Buf2 a \<Rightarrow>
               (case set_through a (From 0) (Before (int (ncols a))) i x of
                  Inl e \<Rightarrow> (Inl e, h)
                | Inr a' \<Rightarrow> (Inr (), h[p := Buf2 a'])))
      | View p rs cs \<Rightarrow>
          (case h ! p of
             Buf2 a \<Rightarrow>
               (case set_through a rs cs i x of
                  Inl e \<Rightarrow> (Inl e, h)
                | Inr a' \<Rightarrow> (Inr (), h[p := Buf2 a']))
           | Buf1 v \<Rightarrow> (Inl IndexError, h)))"

definition mean_st :: "aref \<Rightarrow> aref st" where
  "mean_st r h = alloc (Buf1 (mean_axis0 (as2d (deref h r)))) h"

definition std_st :: "aref \<Rightarrow> aref st" where
  "std_st r h = alloc (Buf1 (std_axis0 (as2d (deref h r)))) h"

definition broadcast_st :: "(npfloat \<Rightarrow> npfloat \<Rightarrow> npfloat) \<Rightarrow> aref \<Rightarrow> aref \<Rightarrow> aref st" where
  "broadcast_st f r v h =
     (case broadcast f (as2d (deref h r)) (as1d (deref h v)) of
        Inl e \<Rightarrow> (Inl e, h)
      | Inr b \<Rightarrow> alloc (Buf2 b) h)"

definition shape0 :: "addr \<Rightarrow> nat st" where
  "shape0 p h = (case h ! p of Buf2 a \<Rightarrow> (Inr (length (rows a)), h)
                             | Buf1 v \<Rightarrow> (Inr (length v), h))"

text \<open>The function body, statement by statement, on references.\<close>

definition split_and_preprocess_st :: "addr \<Rightarrow> npfloat \<Rightarrow> (aref \<times> aref \<times> aref \<times> aref) st" where
  "split_and_preprocess_st data train_fraction =
     bind_st (shape0 data) (\<lambda>n.
     bind_st (lift_st (split_point n train_fraction)) (\<lambda>sp.
     bind_st (getitem data (Upto sp) (Index label_index)) (\<lambda>train_labels.
     bind_st (getitem data (From sp) (Index label_index)) (\<lambda>test_labels.
     bind_st (getitem data (Upto sp) (Before label_index)) (\<lambda>train.
     bind_st (getitem data (From sp) (Before label_index)) (\<lambda>test.
     bind_st (mean_st train) (\<lambda>mean.
     bind_st (std_st train) (\<lambda>sigma.
     bind_st (setitem_st mean 0 (Fin 0)) (\<lambda>_.
     bind_st (setitem_st sigma 0 (Fin 1)) (\<lambda>_.
     bind_st (broadcast_st np_sub train mean) (\<lambda>train_centred.
     bind_st (broadcast_st np_div train_centred sigma) (\<lambda>train_out.
     bind_st (broadcast_st np_sub test mean) (\<lambda>test_centred.
     bind_st (broadcast_st np_div test_centred sigma) (\<lambda>test_out.
     return_st (train_out, train_labels, test_out, test_labels)))))))))))))))"

section \<open>TrainingHistory\<close>

text \<open>
  The callback object: its two members do not exist before
  \<^verbatim>\<open>on_train_begin\<close> has run (\<open>None\<close>); the rest of the record stands for the
  attributes of the \<^verbatim>\<open>Callback\<close> base class. Each member holds a list of its own:
  the record describes the objects that \<^verbatim>\<open>on_train_begin\<close> has initialised, and
  the store below describes any object.
\<close>

record 'v TrainingHistory =
  loss :: "'v list option"
  validation_loss :: "'v list option"

definition on_train_begin ::
  "('v, 'm) TrainingHistory_scheme \<Rightarrow> (string \<rightharpoonup> 'v) \<Rightarrow> ('v, 'm) TrainingHistory_scheme" where
  "on_train_begin self logs = self\<lparr>loss := Some [], validation_loss := Some []\<rparr>"

text \<open>
  \<^verbatim>\<open>on_epoch_end\<close> returns the object as the call leaves it, with the exception
  if one was raised: the first \<^verbatim>\<open>append\<close> is not undone when the second member
  is missing.
\<close>

definition on_epoch_end ::
  "('v, 'm) TrainingHistory_scheme \<Rightarrow> int \<Rightarrow> (string \<rightharpoonup> 'v) \<Rightarrow>
   py_error option \<times> ('v, 'm) TrainingHistory_scheme" where
  "on_epoch_end self epoch logs =
     (case (case logs ''loss'' of
              None \<Rightarrow> Inr self
            | Some x \<Rightarrow>
                (case loss self of
                   None \<Rightarrow> Inl AttributeError
                 | Some l \<Rightarrow> Inr (self\<lparr>loss := Some (l @ [x])\<rparr>))) of
        Inl e \<Rightarrow> (Some e, self)
      | Inr self' \<Rightarrow>
          (case logs ''val_loss'' of
             None \<Rightarrow> (None, self')
           | Some y \<Rightarrow>
               (case validation_loss self' of
                  None \<Rightarrow> (Some AttributeError, self')
                | Some l \<Rightarrow> (None, self'\<lparr>validation_loss := Some (l @ [y])\<rparr>))))"

text \<open>The framework's calls at the epoch boundaries, stopping at an exception.\<close>

fun epochs ::
  "('v, 'm) TrainingHistory_scheme \<Rightarrow> (int \<times> (string \<rightharpoonup> 'v)) list \<Rightarrow>
   py_error option \<times> ('v, 'm) TrainingHistory_scheme" where
  "epochs self [] = (None, self)"
| "epochs self ((epoch, logs) # rest) =
     (case on_epoch_end self epoch logs of
        (Some e, self') \<Rightarrow> (Some e, self')
      | (None, self') \<Rightarrow> epochs self' rest)"

text \<open>
  In Python the two members are references to list objects, and \<^verbatim>\<open>append\<close>
  changes the object in place. The record above gives each member a list of
  its own, which is what \<^verbatim>\<open>on_train_begin\<close> creates. The definitions below keep
  the list objects in a store, so that both members may refer to one list.
  \<^verbatim>\<open>on_epoch_end\<close> binds no attribute: it returns the store only.
\<close>

record TrainingHistory_refs =
  loss_ref :: "addr option"
  validation_loss_ref :: "addr option"

type_synonym 'v lists = "'v list list"

definition on_train_begin_st ::
  "'m TrainingHistory_refs_scheme \<Rightarrow> (string \<rightharpoonup> 'v) \<Rightarrow> 'v lists \<Rightarrow>
   'm TrainingHistory_refs_scheme \<times> 'v lists" where
  "on_train_begin_st self logs s =
     (self\<lparr>loss_ref := Some (length s), validation_loss_ref := Some (length s + 1)\<rparr>,
      s @ [[], []])"

definition append_st :: "addr \<Rightarrow> 'v \<Rightarrow> 'v lists \<Rightarrow> 'v lists" where
  "append_st p x s = s[p := s ! p @ [x]]"

definition on_epoch_end_st ::
  "'m TrainingHistory_refs_scheme \<Rightarrow> int \<Rightarrow> (string \<rightharpoonup> 'v) \<Rightarrow> 'v lists \<Rightarrow>
   py_error option \<times> 'v lists" where
  "on_epoch_end_st self epoch logs s =
     (case (case logs ''loss'' of
              None \<Rightarrow> Inr s
            | Some x \<Rightarrow>
                (case loss_ref self of
                   None \<Rightarrow> Inl AttributeError
                 | Some p \<Rightarrow> Inr (append_st p x s))) of
        Inl e \<Rightarrow> (Some e, s)
      | Inr s' \<Rightarrow>
          (case logs ''val_loss'' of
             None \<Rightarrow> (None, s')
           | Some y \<Rightarrow>
               (case validation_loss_ref self of
                  None \<Rightarrow> (Some AttributeError, s')
                | Some q \<Rightarrow> (None, append_st q y s'))))"

text \<open>What the members hold, read from the store.\<close>

definition members :: "'v lists \<Rightarrow> 'm TrainingHistory_refs_scheme \<Rightarrow> 'v TrainingHistory" where
  "members s self =
     \<lparr>loss = map_option (\<lambda>p. s ! p) (loss_ref self),
      validation_loss = map_option (\<lambda>p. s ! p) (validation_loss_ref self)\<rparr>"

section \<open>Predicates of the statements\<close>

text \<open>The two members of the callback object are not the same list object.\<close>

definition separate :: "'m TrainingHistory_refs_scheme \<Rightarrow> bool" where
  "separate self \<longleftrightarrow> (\<forall>p. loss_ref self = Some p \<longrightarrow> validation_loss_ref self \<noteq> Some p)"

text \<open>
  A store \<open>h\<close> extends \<open>h0\<close> when every buffer of \<open>h0\<close> is in \<open>h\<close> at its address
  with its contents. A computation keeps \<open>h0\<close> when it takes stores that extend
  \<open>h0\<close> to stores that extend \<open>h0\<close>, returning values that satisfy \<open>Q\<close>. A
  reference is fresh for \<open>h0\<close> when it owns a buffer allocated after \<open>h0\<close>.
\<close>

definition extends :: "heap \<Rightarrow> heap \<Rightarrow> bool" where
  "extends h0 h \<longleftrightarrow> length h0 \<le> length h \<and> take (length h0) h = h0"

definition keeps :: "heap \<Rightarrow> 'a st \<Rightarrow> ('a \<Rightarrow> bool) \<Rightarrow> bool" where
  "keeps h0 m Q \<longleftrightarrow>
     (\<forall>h. extends h0 h \<longrightarrow>
        extends h0 (snd (m h)) \<and> (\<forall>x. fst (m h) = Inr x \<longrightarrow> Q x))"

definition fresh :: "heap \<Rightarrow> aref \<Rightarrow> bool" where
  "fresh h0 r \<longleftrightarrow> (\<exists>p. r = Owner p \<and> length h0 \<le> p)"



section \<open>Unfolding the array operations\<close>

lemma slice_bound_le: "slice_bound n i \<le> n"
  by (auto simp: slice_bound_def)

lemma slice_bound_last: "slice_bound m (- 1) = m - 1"
  by (cases m) (auto simp: slice_bound_def)

lemma col_index_last:
  "col_index a label_index =
     (if ncols a = 0 then Inl IndexError else Inr (column a (ncols a - 1)))"
  by (auto simp: col_index_def label_index_def py_index_def nat_diff_distrib')

lemma cols_upto_last:
  "cols_upto a label_index =
     \<lparr>ncols = ncols a - 1, rows = map (take (ncols a - 1)) (rows a)\<rparr>"
  by (simp add: cols_upto_def label_index_def slice_bound_last Let_def)

lemma setitem_0:
  "setitem v 0 x = (if v = [] then Inl IndexError else Inr (v[0 := x]))"
  by (cases v) (simp_all add: setitem_def py_index_def)

lemma length_mean_axis0 [simp]: "length (mean_axis0 a) = ncols a"
  by (simp add: mean_axis0_def)

lemma length_std_axis0 [simp]: "length (std_axis0 a) = ncols a"
  by (simp add: std_axis0_def)

lemma normalization_eq:
  "normalization train =
     (if ncols train = 0 then Inl IndexError
      else Inr ((mean_axis0 train)[0 := Fin 0], (std_axis0 train)[0 := Fin 1]))"
proof -
  have "mean_axis0 train = [] \<longleftrightarrow> ncols train = 0"
    using length_mean_axis0 [of train] by (metis length_0_conv)
  moreover have "std_axis0 train = [] \<longleftrightarrow> ncols train = 0"
    using length_std_axis0 [of train] by (metis length_0_conv)
  ultimately show ?thesis
    by (simp add: normalization_def setitem_0 Let_def)
qed

lemma standardize_eq:
  "length mean = ncols a \<Longrightarrow> length sigma = ncols a \<Longrightarrow>
   standardize a mean sigma =
     Inr \<lparr>ncols = ncols a,
          rows = map (\<lambda>r. map2 np_div (map2 np_sub r mean) sigma) (rows a)\<rparr>"
  by (simp add: standardize_def broadcast_def)

lemma ncols_train_of [simp]: "ncols (train_of data sp) = ncols data - 1"
  by (simp add: train_of_def cols_upto_last rows_upto_def)

lemma ncols_test_of [simp]: "ncols (test_of data sp) = ncols data - 1"
  by (simp add: test_of_def cols_upto_last rows_from_def)

lemma rows_train_of:
  "rows (train_of data sp) =
     map (take (ncols data - 1)) (take (slice_bound (length (rows data)) sp) (rows data))"
  by (simp add: train_of_def cols_upto_last rows_upto_def)

lemma rows_test_of:
  "rows (test_of data sp) =
     map (take (ncols data - 1)) (drop (slice_bound (length (rows data)) sp) (rows data))"
  by (simp add: test_of_def cols_upto_last rows_from_def)

lemma train_labels_of_eq:
  "train_labels_of data sp =
     (if ncols data = 0 then Inl IndexError
      else Inr (map (\<lambda>r. r ! (ncols data - 1))
                  (take (slice_bound (length (rows data)) sp) (rows data))))"
  by (simp add: train_labels_of_def col_index_last rows_upto_def column_def)

lemma test_labels_of_eq:
  "test_labels_of data sp =
     (if ncols data = 0 then Inl IndexError
      else Inr (map (\<lambda>r. r ! (ncols data - 1))
                  (drop (slice_bound (length (rows data)) sp) (rows data))))"
  by (simp add: test_labels_of_def col_index_last rows_from_def column_def)

section \<open>The rounded product and the split point\<close>

lemma round_half_even_bounds: "\<lfloor>y\<rfloor> \<le> round_half_even y \<and> round_half_even y \<le> \<lceil>y\<rceil>"
proof -
  have "\<lfloor>y\<rfloor> + 1 \<le> \<lceil>y\<rceil>" if "1 / 2 \<le> y - of_int \<lfloor>y\<rfloor>"
  proof -
    have "of_int \<lfloor>y\<rfloor> < y" using that by linarith
    then show ?thesis by linarith
  qed
  then show ?thesis
    by (auto simp: round_half_even_def Let_def) 
qed

lemma round_half_even_of_int [simp]: "round_half_even (of_int n) = n"
  by (simp add: round_half_even_def)

lemma floor_log2_eq: "0 < x \<Longrightarrow> 2 powi k \<le> x \<Longrightarrow> x < 2 powi (k + 1) \<Longrightarrow> \<lfloor>log 2 x\<rfloor> = k"
  using powr_real_of_int' [of 2 k] powr_real_of_int' [of 2 "k + 1"]
  by (simp add: floor_log_eq_powr_iff)

lemmas fl64_eval = fl64_def quantum_def round_half_even_def Let_def power_int_minus

lemma fl64_third: "fl64 (3 * (6004799503160661 / 2 ^ 54)) = Fin 1"
proof -
  let ?x = "3 * (6004799503160661 / 2 ^ 54) :: real"
  have "\<lfloor>log 2 ?x\<rfloor> = - 1"
    by (rule floor_log2_eq) (simp_all add: power_int_minus)
  then have q: "quantum ?x = 1 / 2 ^ 53"
    by (simp add: quantum_def power_int_minus field_simps)
  have "round_half_even (?x / quantum ?x) = 2 ^ 53"
    unfolding q by (simp add: round_half_even_def Let_def)
  then show ?thesis unfolding fl64_def Let_def q by simp
qed

lemma floor_log2_le:
  assumes "0 < x" "x < 2 ^ 53"
  shows "\<lfloor>log 2 x\<rfloor> \<le> 52"
proof -
  have "log 2 x < 53" using assms by (simp add: log_less_iff)
  then show ?thesis by linarith
qed

lemma quantum_small:
  assumes "0 < x" "x < 2 ^ 53"
  shows "\<exists>j. quantum x = 1 / 2 ^ j"
proof -
  let ?k = "max (\<lfloor>log 2 \<bar>x\<bar>\<rfloor> - 52) (- 1074)"
  have "?k \<le> 0" using floor_log2_le [OF assms] assms(1) by simp
  then have "(2::real) powi ?k = 1 / 2 ^ nat (- ?k)"
    by (simp add: power_int_def field_simps)
  then show ?thesis unfolding quantum_def by blast
qed

lemma fl64_bounded:
  assumes "0 \<le> x" "x \<le> real m" "m < 2 ^ 53"
  shows "\<exists>y. fl64 x = Fin y \<and> 0 \<le> y \<and> y \<le> real m"
proof (cases "x = 0")
  case True
  then show ?thesis by (simp add: fl64_def)
next
  case False
  then have x: "0 < x" using assms(1) by simp
  have "real m < 2 ^ 53" using assms(3) by (metis of_nat_less_iff of_nat_numeral of_nat_power)
  then have "x < 2 ^ 53" using assms(2) by simp
  with x obtain j where q: "quantum x = 1 / 2 ^ j" using quantum_small by blast
  let ?r = "round_half_even (x / quantum x)"
  let ?y = "of_int ?r * quantum x :: real"
  have z0: "0 \<le> x / quantum x" using x q by simp
  have zm: "x / quantum x \<le> of_int (int (m * 2 ^ j))"
    using assms(2) unfolding q by (simp add: mult_right_mono)
  have "\<lfloor>x / quantum x\<rfloor> \<le> ?r" "?r \<le> \<lceil>x / quantum x\<rceil>"
    using round_half_even_bounds by blast+
  moreover have "0 \<le> \<lfloor>x / quantum x\<rfloor>" using z0 by simp
  moreover have "\<lceil>x / quantum x\<rceil> \<le> int (m * 2 ^ j)" using zm by (simp only: ceiling_le_iff)
  ultimately have r: "0 \<le> ?r" "?r \<le> int (m * 2 ^ j)" by linarith+
  have y0: "0 \<le> ?y" using r(1) q by simp
  have "of_int ?r \<le> (of_int (int (m * 2 ^ j)) :: real)" using r(2) by (simp only: of_int_le_iff)
  then have "?y \<le> of_int (int (m * 2 ^ j)) * quantum x"
    using q by (intro mult_right_mono) simp_all
  also have "\<dots> = real m" using q by simp
  finally have ym: "?y \<le> real m" .
  have "\<bar>?y\<bar> < 2 ^ 1024"
  proof -
    have "\<bar>?y\<bar> = ?y" using y0 by simp
    also have "\<dots> < 2 ^ 53" using ym \<open>real m < 2 ^ 53\<close> by simp
    also have "\<dots> \<le> (2::real) ^ 1024" by (rule power_increasing) simp_all
    finally show ?thesis .
  qed
  then have "fl64 x = Fin ?y" using False by (simp add: fl64_def Let_def)
  then show ?thesis using y0 ym by blast
qed

lemma fl64_nat:
  assumes "n < 2 ^ 53"
  shows "fl64 (real n) = Fin (real n)"
proof (cases "n = 0")
  case True
  then show ?thesis by (simp add: fl64_def)
next
  case False
  then have x: "0 < real n" by simp
  have lt: "real n < 2 ^ 53" using assms by (metis of_nat_less_iff of_nat_numeral of_nat_power)
  with x obtain j where q: "quantum (real n) = 1 / 2 ^ j" using quantum_small by blast
  have "real n / quantum (real n) = of_int (int (n * 2 ^ j))" by (simp add: q)
  then have "round_half_even (real n / quantum (real n)) = int (n * 2 ^ j)"
    by (simp only: round_half_even_of_int)
  then have y: "of_int (round_half_even (real n / quantum (real n))) * quantum (real n) = real n"
    by (simp add: q)
  have "(2::real) ^ 53 \<le> 2 ^ 1024" by (rule power_increasing) simp_all
  then have "\<not> 2 ^ 1024 \<le> \<bar>real n\<bar>" using lt by simp
  then show ?thesis using False unfolding fl64_def Let_def y by simp
qed

lemma py_float_small: "n < 2 ^ 53 \<Longrightarrow> py_float n = Inr (Fin (real n))"
  by (simp add: py_float_def fl64_nat)

text \<open>
  For a fraction between 0 and 1 and fewer than \<open>2 ^ 53\<close> rows, the rounded
  product is a number between 0 and the row count, and the split point is its
  floor.
\<close>

lemma split_point_unit:
  assumes "0 \<le> r" "r \<le> 1" "n < 2 ^ 53"
  shows "\<exists>y. fl64 (real n * r) = Fin y \<and> 0 \<le> y \<and> y \<le> real n
           \<and> split_point n (Fin r) = Inr \<lfloor>y\<rfloor>"
proof -
  have "0 \<le> real n * r" "real n * r \<le> real n"
    using assms(1,2) by (simp_all add: mult_left_le)
  then obtain y where y: "fl64 (real n * r) = Fin y" "0 \<le> y" "y \<le> real n"
    using fl64_bounded [OF _ _ assms(3)] by blast
  then have "split_point n (Fin r) = Inr \<lfloor>y\<rfloor>"
    by (simp add: split_point_def py_float_small [OF assms(3)] float_mul_def)
  with y show ?thesis by blast
qed

lemma slice_bound_floor:
  assumes "0 \<le> y" "y \<le> real n"
  shows "slice_bound n \<lfloor>y\<rfloor> = nat \<lfloor>y\<rfloor>"
proof -
  have "\<lfloor>y\<rfloor> \<le> int n" using assms(2) by linarith
  moreover have "0 \<le> \<lfloor>y\<rfloor>" using assms(1) by simp
  ultimately show ?thesis by (simp add: slice_bound_def)
qed

text \<open>
  The split points of the worked examples. The last one is the double nearest
  to one third: three times it is \<open>1 - 1 / 2 ^ 54\<close>, which rounds to 1.
\<close>

lemma split_point_4_half: "n = 4 \<Longrightarrow> split_point n (Fin (1 / 2)) = Inr 2"
  using py_float_small [of 4] by (simp add: split_point_def float_mul_def fl64_eval)

lemma split_point_2_zero: "n = 2 \<Longrightarrow> split_point n (Fin 0) = Inr 0"
  using py_float_small [of 2] by (simp add: split_point_def float_mul_def fl64_def)

lemma split_point_3_third:
  "n = 3 \<Longrightarrow> split_point n (Fin (6004799503160661 / 2 ^ 54)) = Inr 1"
  using py_float_small [of 3] fl64_third by (simp add: split_point_def float_mul_def)

lemma split_point_infinite: "n = 4 \<Longrightarrow> split_point n PInf = Inl OverflowError"
  using py_float_small [of 4] by (simp add: split_point_def float_mul_def)

lemma split_point_nan: "n = 4 \<Longrightarrow> split_point n NaN = Inl ValueError"
  using py_float_small [of 4] by (simp add: split_point_def float_mul_def)

section \<open>When the call returns\<close>

text \<open>
  The call raises what the split point raises, and \<^verbatim>\<open>IndexError\<close> when the array
  has fewer than two columns; otherwise it returns the four arrays below.
\<close>

lemma split_and_preprocess_no_split:
  "split_point (length (rows data)) f = Inl e \<Longrightarrow> split_and_preprocess data f = Inl e"
  by (simp add: split_and_preprocess_def)

lemma split_and_preprocess_raises:
  "split_point (length (rows data)) f = Inr sp \<Longrightarrow> ncols data < 2 \<Longrightarrow>
   split_and_preprocess data f = Inl IndexError"
  by (auto simp: split_and_preprocess_def Let_def train_labels_of_eq test_labels_of_eq
      normalization_eq)

lemma split_and_preprocess_returns:
  assumes "split_point (length (rows data)) f = Inr sp" and "2 \<le> ncols data"
  shows "split_and_preprocess data f =
     (let k = slice_bound (length (rows data)) sp;
          train = train_of data sp;
          mean = (mean_axis0 train)[0 := Fin 0];
          sigma = (std_axis0 train)[0 := Fin 1];
          scale = (\<lambda>r. map2 np_div (map2 np_sub r mean) sigma)
      in Inr (\<lparr>ncols = ncols data - 1, rows = map scale (rows train)\<rparr>,
              map (\<lambda>r. r ! (ncols data - 1)) (take k (rows data)),
              \<lparr>ncols = ncols data - 1, rows = map scale (rows (test_of data sp))\<rparr>,
              map (\<lambda>r. r ! (ncols data - 1)) (drop k (rows data))))"
  using assms
  by (simp add: split_and_preprocess_def Let_def train_labels_of_eq test_labels_of_eq
      normalization_eq standardize_eq)

lemma returns_split:
  assumes "split_and_preprocess data f = Inr r"
  obtains sp where "split_point (length (rows data)) f = Inr sp" and "2 \<le> ncols data"
proof (cases "split_point (length (rows data)) f")
  case (Inl e)
  then show ?thesis using assms by (simp add: split_and_preprocess_no_split)
next
  case (Inr sp)
  then have "2 \<le> ncols data"
    using assms split_and_preprocess_raises [OF Inr] by (cases "ncols data < 2") auto
  with Inr show ?thesis by (rule that)
qed

section \<open>Arithmetic of the entries\<close>

lemma np_sub_zero: "np_sub x (Fin 0) = x"
  by (cases x) (simp_all add: np_sub_def)

lemma np_div_one: "np_div x (Fin 1) = x"
  by (cases x) simp_all

lemma is_Fin_conv: "is_Fin x \<longleftrightarrow> (\<exists>a. x = Fin a)"
  by (cases x) simp_all

lemma is_Fin_np_neg [simp]: "is_Fin (np_neg a) = is_Fin a"
  by (cases a) simp_all

lemma is_Fin_np_add [simp]: "is_Fin (np_add a b) \<longleftrightarrow> is_Fin a \<and> is_Fin b"
  by (cases a; cases b) simp_all

lemma is_Fin_np_sub [simp]: "is_Fin (np_sub a b) \<longleftrightarrow> is_Fin a \<and> is_Fin b"
  by (simp add: np_sub_def)

lemma is_Fin_np_square [simp]: "is_Fin (np_mul a a) = is_Fin a"
  by (cases a) simp_all

lemma is_Fin_np_div_count: "is_Fin (np_div a (Fin (real n))) \<longleftrightarrow> is_Fin a \<and> 0 < n"
  by (cases a) auto

lemma is_Fin_np_sqrt: "is_Fin (np_sqrt a) \<Longrightarrow> is_Fin a"
  by (cases a) simp_all

lemma is_Fin_foldl: "is_Fin (foldl np_add acc xs) \<longleftrightarrow> is_Fin acc \<and> list_all is_Fin xs"
  by (induction xs arbitrary: acc) auto

lemma is_Fin_np_sum: "is_Fin (np_sum xs) \<longleftrightarrow> list_all is_Fin xs"
  by (simp add: np_sum_def is_Fin_foldl)

lemma all_Fin_map: "list_all is_Fin xs \<Longrightarrow> \<exists>rs. xs = map Fin rs"
proof (induction xs)
  case Nil
  then show ?case by simp
next
  case (Cons x xs)
  then obtain a rs where "x = Fin a" "xs = map Fin rs"
    by (auto simp: is_Fin_conv)
  then have "x # xs = map Fin (a # rs)" by simp
  then show ?case by (rule exI)
qed

lemma is_Fin_np_std:
  assumes "is_Fin (np_std xs)"
  shows "list_all is_Fin xs \<and> xs \<noteq> []"
proof -
  let ?m = "np_mean xs"
  have v: "is_Fin (np_var xs)" using assms unfolding np_std_def by (rule is_Fin_np_sqrt)
  then have n: "0 < length xs"
    and s: "list_all is_Fin (map (\<lambda>a. np_mul a a) (map (\<lambda>a. np_sub a ?m) xs))"
    by (simp_all add: np_var_def Let_def is_Fin_np_div_count is_Fin_np_sum)
  from s have "list_all is_Fin xs"
    by (simp add: list_all_iff)
  then show ?thesis using n by auto
qed

lemma foldl_np_add_Fin: "foldl np_add (Fin a) (map Fin rs) = Fin (a + sum_list rs)"
  by (induction rs arbitrary: a) (simp_all add: add.assoc)

lemma np_sum_Fin: "np_sum (map Fin rs) = Fin (sum_list rs)"
  by (simp add: np_sum_def foldl_np_add_Fin)

lemma np_mean_Fin:
  "rs \<noteq> [] \<Longrightarrow> np_mean (map Fin rs) = Fin (sum_list rs / real (length rs))"
  by (simp add: np_mean_def np_sum_Fin)

lemma np_var_Fin:
  assumes "rs \<noteq> []"
  shows "np_var (map Fin rs) =
     Fin (sum_list (map (\<lambda>r. (r - sum_list rs / real (length rs)) * (r - sum_list rs / real (length rs))) rs)
          / real (length rs))"
proof -
  let ?mu = "sum_list rs / real (length rs)"
  have "map (\<lambda>a. np_mul a a) (map (\<lambda>a. np_sub a (Fin ?mu)) (map Fin rs))
      = map Fin (map (\<lambda>r. (r - ?mu) * (r - ?mu)) rs)"
    by (simp add: np_sub_def)
  then show ?thesis using assms
    by (simp add: np_var_def Let_def np_mean_Fin np_sum_Fin del: map_map)
qed

lemma sum_list_sub_const:
  "sum_list (map (\<lambda>r. (r - c) / s) rs) = (sum_list rs - real (length rs) * c) / (s::real)"
  by (induction rs) (simp_all add: algebra_simps diff_divide_distrib add_divide_distrib)

lemma centred_mean_zero:
  assumes "rs \<noteq> []"
  shows "sum_list (map (\<lambda>r. (r - sum_list rs / real (length rs)) / s) rs) = (0::real)"
  using assms by (simp add: sum_list_sub_const)

lemma sum_list_div_const:
  "sum_list (map (\<lambda>r. g r / k) rs) = sum_list (map g rs) / (k::real)"
  by (induction rs) (simp_all add: add_divide_distrib)

text \<open>
  A list of finite values with a nonzero standard deviation, centred by its mean
  and scaled by its standard deviation, has mean 0 and standard deviation 1.
\<close>

lemma standardised_moments:
  fixes rs :: "real list"
  assumes "np_std (map Fin rs) = Fin s" "s \<noteq> 0"
  defines "ys \<equiv> map (\<lambda>x. np_div (np_sub x (np_mean (map Fin rs))) (Fin s)) (map Fin rs)"
  shows "np_mean ys = Fin 0 \<and> np_std ys = Fin 1"
proof -
  let ?n = "real (length rs)"
  let ?mu = "sum_list rs / ?n"
  let ?v = "sum_list (map (\<lambda>r. (r - ?mu) * (r - ?mu)) rs) / ?n"
  have ne: "rs \<noteq> []" using assms(1) is_Fin_np_std [of "map Fin rs"] by simp
  have var: "np_var (map Fin rs) = Fin ?v" using ne by (rule np_var_Fin)
  have "0 \<le> sum_list (map (\<lambda>r. (r - ?mu) * (r - ?mu)) rs)"
    by (rule sum_list_nonneg) auto
  then have v0: "0 \<le> ?v" by simp
  have s: "s = sqrt ?v" using assms(1) v0 by (simp add: np_std_def var)
  have ss: "s * s = ?v" unfolding s real_sqrt_mult_self using v0 by (rule abs_of_nonneg)
  have ys: "ys = map Fin (map (\<lambda>r. (r - ?mu) / s) rs)"
    using ne assms(2) by (simp add: ys_def np_mean_Fin np_sub_def)
  have len: "length (map (\<lambda>r. (r - ?mu) / s) rs) = length rs" by simp
  have ne': "map (\<lambda>r. (r - ?mu) / s) rs \<noteq> []" using ne by simp
  have m: "np_mean ys = Fin 0"
    unfolding ys np_mean_Fin [OF ne'] len centred_mean_zero [OF ne] by simp
  have "np_var ys = Fin (sum_list (map (\<lambda>r. ((r - ?mu) / s) * ((r - ?mu) / s)) rs) / ?n)"
    unfolding ys np_var_Fin [OF ne'] len centred_mean_zero [OF ne] by (simp add: o_def)
  also have "\<dots> = Fin (?v / (s * s))"
    by (simp add: sum_list_div_const)
  also have "\<dots> = Fin 1" unfolding ss [symmetric] using assms(2) by simp
  finally have "np_std ys = Fin 1" by (simp add: np_std_def)
  with m show ?thesis by simp
qed

section \<open>Rows of a well-formed array\<close>

lemma wf_row_length: "wf_ndarray a \<Longrightarrow> r \<in> set (rows a) \<Longrightarrow> length r = ncols a"
  by (simp add: wf_ndarray_def list_all_iff)

lemma last_conv_index: "length r = m \<Longrightarrow> 0 < m \<Longrightarrow> r ! (m - 1) = last r"
  by (metis last_conv_nth length_greater_0_conv)

section \<open>Worked examples\<close>

lemmas eval_simps =
  split_and_preprocess_def rows_upto_def rows_from_def
  slice_bound_def col_index_last cols_upto_last normalization_eq column_def
  train_of_def test_of_def train_labels_of_def test_labels_of_def
  standardize_def broadcast_def mean_axis0_def std_axis0_def np_mean_def np_std_def
  np_var_def np_sum_def np_sub_def upt_rec

text \<open>Four samples, two features and the label, split in the middle.\<close>

lemma example_half:
  "split_and_preprocess
     \<lparr>ncols = 3, rows = [[Fin 1, Fin 1, Fin 5], [Fin (- 1), Fin 3, Fin 6],
                        [Fin 0, Fin 3, Fin 7], [Fin 0, Fin 7, Fin 8]]\<rparr> (Fin (1 / 2))
   = Inr (\<lparr>ncols = 2, rows = [[Fin 1, Fin (- 1)], [Fin (- 1), Fin 1]]\<rparr>, [Fin 5, Fin 6],
          \<lparr>ncols = 2, rows = [[Fin 0, Fin 1], [Fin 0, Fin 5]]\<rparr>, [Fin 7, Fin 8])"
  by (simp add: split_point_4_half eval_simps)

text \<open>A training fraction of 0: the training partition is empty.\<close>

lemma example_empty_train:
  "split_and_preprocess \<lparr>ncols = 3, rows = [[Fin 1, Fin 2, Fin 5], [Fin 0, Fin 4, Fin 6]]\<rparr>
     (Fin 0)
   = Inr (\<lparr>ncols = 2, rows = []\<rparr>, [],
          \<lparr>ncols = 2, rows = [[Fin 1, NaN], [Fin 0, NaN]]\<rparr>, [Fin 5, Fin 6])"
  by (simp add: split_point_2_zero eval_simps)

text \<open>
  Three samples and the double nearest to one third: the exact product is
  below 1, the rounded product is 1, and one sample is used for training.
\<close>

lemma example_third:
  "split_and_preprocess
     \<lparr>ncols = 3, rows = [[Fin 1, Fin 2, Fin 5], [Fin 0, Fin 4, Fin 6], [Fin 0, Fin 6, Fin 7]]\<rparr>
     (Fin (6004799503160661 / 2 ^ 54))
   = Inr (\<lparr>ncols = 2, rows = [[Fin 1, NaN]]\<rparr>, [Fin 5],
          \<lparr>ncols = 2, rows = [[Fin 0, PInf], [Fin 0, PInf]]\<rparr>, [Fin 6, Fin 7])"
  using split_point_3_third [of "Suc (Suc (Suc 0))"] by (simp add: eval_simps)

text \<open>A training fraction that is not a number, or infinite: \<^verbatim>\<open>int\<close> raises.\<close>

lemma example_nan_fraction:
  "split_and_preprocess
     \<lparr>ncols = 3, rows = [[Fin 1, Fin 1, Fin 5], [Fin (- 1), Fin 3, Fin 6],
                        [Fin 0, Fin 3, Fin 7], [Fin 0, Fin 7, Fin 8]]\<rparr> NaN
   = Inl ValueError"
  by (simp add: split_and_preprocess_no_split split_point_nan)

lemma example_infinite_fraction:
  "split_and_preprocess
     \<lparr>ncols = 3, rows = [[Fin 1, Fin 1, Fin 5], [Fin (- 1), Fin 3, Fin 6],
                        [Fin 0, Fin 3, Fin 7], [Fin 0, Fin 7, Fin 8]]\<rparr> PInf
   = Inl OverflowError"
  by (simp add: split_and_preprocess_no_split split_point_infinite)


section \<open>Sizes of the partitions\<close>



text \<open>
  Claim C10. Whatever the training fraction, each returned feature matrix has
  as many rows as its label vector has entries, also when a partition is empty.
\<close>

theorem rows_match_labels:
  assumes "split_and_preprocess data f = Inr (train, train_labels, test, test_labels)"
  shows "length (rows train) = length train_labels \<and> length (rows test) = length test_labels"
proof -
  from assms obtain sp where sp: "split_point (length (rows data)) f = Inr sp"
    and c: "2 \<le> ncols data" by (rule returns_split)
  show ?thesis
    using assms unfolding split_and_preprocess_returns [OF sp c] Let_def
    by (auto simp: rows_train_of rows_test_of)
qed

theorem rows_match_labels_witness:
  "split_and_preprocess \<lparr>ncols = 3, rows = [[Fin 1, Fin 2, Fin 5], [Fin 0, Fin 4, Fin 6]]\<rparr>
     (Fin 0)
   = Inr (\<lparr>ncols = 2, rows = []\<rparr>, [],
          \<lparr>ncols = 2, rows = [[Fin 1, NaN], [Fin 0, NaN]]\<rparr>, [Fin 5, Fin 6])
   \<and> length (rows \<lparr>ncols = 2, rows = ([] :: npfloat list list)\<rparr>) = length ([] :: npfloat list)
   \<and> length (rows \<lparr>ncols = 2, rows = [[Fin 1, NaN], [Fin 0, NaN]]\<rparr>) = length [Fin 5, Fin 6]"
  using example_empty_train rows_match_labels [OF example_empty_train] by simp

section \<open>The categorical column\<close>

text \<open>
  Claim C3. Column 0 of the returned training and test matrices is column 0 of
  the corresponding rows of the input: the mean and the scale stored for this
  column are 0 and 1, and subtracting 0 and dividing by 1 changes no entry.
\<close>

theorem categorical_column_unchanged:
  assumes "wf_ndarray data"
    and "split_and_preprocess data f = Inr (train, train_labels, test, test_labels)"
  shows "\<exists>sp. split_point (length (rows data)) f = Inr sp
       \<and> column train 0 = column (rows_upto data sp) 0
       \<and> column test 0 = column (rows_from data sp) 0
       \<and> (\<exists>mean sigma. normalization (train_of data sp) = Inr (mean, sigma)
             \<and> mean ! 0 = Fin 0 \<and> sigma ! 0 = Fin 1)"
proof -
  from assms(2) obtain sp where sp: "split_point (length (rows data)) f = Inr sp"
    and c: "2 \<le> ncols data" by (rule returns_split)
  let ?k = "slice_bound (length (rows data)) sp"
  let ?mean = "(mean_axis0 (train_of data sp))[0 := Fin 0]"
  let ?sigma = "(std_axis0 (train_of data sp))[0 := Fin 1]"
  let ?scale = "\<lambda>r. map2 np_div (map2 np_sub r ?mean) ?sigma"
  have row0: "?scale (take (ncols data - 1) r) ! 0 = r ! 0" if "r \<in> set (rows data)" for r
  proof -
    have "length r = ncols data" using assms(1) that by (rule wf_row_length)
    then show ?thesis using c by (simp add: np_sub_zero np_div_one)
  qed
  have tr: "rows train = map ?scale (map (take (ncols data - 1)) (take ?k (rows data)))"
    using assms(2) unfolding split_and_preprocess_returns [OF sp c] Let_def
    by (auto simp: rows_train_of)
  have te: "rows test = map ?scale (map (take (ncols data - 1)) (drop ?k (rows data)))"
    using assms(2) unfolding split_and_preprocess_returns [OF sp c] Let_def
    by (auto simp: rows_test_of)
  have "column train 0 = column (rows_upto data sp) 0"
    unfolding column_def tr rows_upto_def using row0
    by (auto dest: in_set_takeD)
  moreover have "column test 0 = column (rows_from data sp) 0"
    unfolding column_def te rows_from_def using row0
    by (auto dest: in_set_dropD)
  moreover have "normalization (train_of data sp) = Inr (?mean, ?sigma)
      \<and> ?mean ! 0 = Fin 0 \<and> ?sigma ! 0 = Fin 1"
    using c by (simp add: normalization_eq)
  ultimately show ?thesis using sp by blast
qed

theorem categorical_column_unchanged_witness:
  "wf_ndarray \<lparr>ncols = 3, rows = [[Fin 1, Fin 1, Fin 5], [Fin (- 1), Fin 3, Fin 6],
                                   [Fin 0, Fin 3, Fin 7], [Fin 0, Fin 7, Fin 8]]\<rparr>
   \<and> split_and_preprocess
       \<lparr>ncols = 3, rows = [[Fin 1, Fin 1, Fin 5], [Fin (- 1), Fin 3, Fin 6],
                          [Fin 0, Fin 3, Fin 7], [Fin 0, Fin 7, Fin 8]]\<rparr> (Fin (1 / 2))
     = Inr (\<lparr>ncols = 2, rows = [[Fin 1, Fin (- 1)], [Fin (- 1), Fin 1]]\<rparr>, [Fin 5, Fin 6],
            \<lparr>ncols = 2, rows = [[Fin 0, Fin 1], [Fin 0, Fin 5]]\<rparr>, [Fin 7, Fin 8])
   \<and> column \<lparr>ncols = 2, rows = [[Fin 1, Fin (- 1)], [Fin (- 1), Fin 1]]\<rparr> 0 = [Fin 1, Fin (- 1)]
   \<and> column \<lparr>ncols = 2, rows = [[Fin 0, Fin 1], [Fin 0, Fin 5]]\<rparr> 0 = [Fin 0, Fin 0]"
proof -
  let ?d = "\<lparr>ncols = 3, rows = [[Fin 1, Fin 1, Fin 5], [Fin (- 1), Fin 3, Fin 6],
                               [Fin 0, Fin 3, Fin 7], [Fin 0, Fin 7, Fin 8]]\<rparr>"
  have wf: "wf_ndarray ?d" by (simp add: wf_ndarray_def)
  have sp: "split_point (length (rows ?d)) (Fin (1 / 2)) = Inr 2"
    by (rule split_point_4_half) simp
  from categorical_column_unchanged [OF wf example_half]
  have "column \<lparr>ncols = 2, rows = [[Fin 1, Fin (- 1)], [Fin (- 1), Fin 1]]\<rparr> 0
          = column (rows_upto ?d 2) 0
      \<and> column \<lparr>ncols = 2, rows = [[Fin 0, Fin 1], [Fin 0, Fin 5]]\<rparr> 0
          = column (rows_from ?d 2) 0"
    unfolding sp by blast
  then show ?thesis
    using wf example_half by (simp add: column_def rows_upto_def rows_from_def slice_bound_def)
qed

section \<open>The split\<close>

text \<open>
  Claim C5. On a well-formed input with at least two columns, once the split
  point \<open>sp\<close> is computed, the call returns, and it splits the data into a
  prefix and a suffix of the rows in their original order: with \<open>k\<close> the bound
  that Python reads from \<open>sp\<close> (\<open>sp\<close> itself when it lies between 0 and the row
  count, as for every fraction between 0 and 1), the training labels are the
  last column of the first \<open>k\<close> rows and the test labels the last column of the
  remaining rows. The returned feature matrices have one column fewer than the
  input: entry \<open>(i, j)\<close> of the training matrix is entry \<open>(i, j)\<close> of the input,
  normalised with the statistics of column \<open>j\<close>, entry \<open>(i, j)\<close> of the test
  matrix comes from entry \<open>(k + i, j)\<close>, and the label column is in neither.
\<close>

theorem contiguous_split:
  assumes "wf_ndarray data" and "2 \<le> ncols data"
    and "split_point (length (rows data)) f = Inr sp"
  shows "\<exists>train train_labels test test_labels k mean sigma.
           split_and_preprocess data f = Inr (train, train_labels, test, test_labels)
         \<and> k = slice_bound (length (rows data)) sp
         \<and> (0 \<le> sp \<and> sp \<le> int (length (rows data)) \<longrightarrow> int k = sp)
         \<and> (\<forall>r. f = Fin r \<and> 0 \<le> r \<and> r \<le> 1 \<and> length (rows data) < 2 ^ 53 \<longrightarrow> int k = sp)
         \<and> normalization (train_of data sp) = Inr (mean, sigma)
         \<and> train_labels = map last (take k (rows data))
         \<and> test_labels = map last (drop k (rows data))
         \<and> ncols train = ncols data - 1 \<and> wf_ndarray train \<and> length (rows train) = k
         \<and> ncols test = ncols data - 1 \<and> wf_ndarray test
         \<and> length (rows test) = length (rows data) - k
         \<and> (\<forall>i<k. \<forall>j<ncols data - 1.
               rows train ! i ! j = np_div (np_sub (rows data ! i ! j) (mean ! j)) (sigma ! j))
         \<and> (\<forall>i<length (rows data) - k. \<forall>j<ncols data - 1.
               rows test ! i ! j = np_div (np_sub (rows data ! (k + i) ! j) (mean ! j)) (sigma ! j))"
proof -
  let ?n = "length (rows data)"
  let ?k = "slice_bound ?n sp"
  let ?c = "ncols data - 1"
  let ?mean = "(mean_axis0 (train_of data sp))[0 := Fin 0]"
  let ?sigma = "(std_axis0 (train_of data sp))[0 := Fin 1]"
  let ?scale = "\<lambda>r. map2 np_div (map2 np_sub r ?mean) ?sigma"
  let ?train = "\<lparr>ncols = ?c, rows = map ?scale (map (take ?c) (take ?k (rows data)))\<rparr>"
  let ?test = "\<lparr>ncols = ?c, rows = map ?scale (map (take ?c) (drop ?k (rows data)))\<rparr>"
  let ?train_labels = "map (\<lambda>r. r ! ?c) (take ?k (rows data))"
  let ?test_labels = "map (\<lambda>r. r ! ?c) (drop ?k (rows data))"
  note c = assms(2) and sp = assms(3)
  have kn: "?k \<le> ?n" by (rule slice_bound_le)
  have len: "length r = ncols data" if "r \<in> set (rows data)" for r
    using assms(1) that by (rule wf_row_length)
  have lab: "r ! ?c = last r" if "r \<in> set (rows data)" for r
    using len [OF that] c by (intro last_conv_index) auto
  have 0: "split_and_preprocess data f = Inr (?train, ?train_labels, ?test, ?test_labels)"
    unfolding split_and_preprocess_returns [OF sp c] Let_def
    by (simp add: rows_train_of rows_test_of)
  have 1: "0 \<le> sp \<and> sp \<le> int ?n \<longrightarrow> int ?k = sp"
    by (auto simp: slice_bound_def)
  have ksp: "int ?k = sp" if f: "f = Fin r \<and> 0 \<le> r \<and> r \<le> 1 \<and> ?n < 2 ^ 53" for r
  proof -
    from f obtain y where y: "0 \<le> y" "y \<le> real ?n"
      and spy: "split_point ?n (Fin r) = Inr \<lfloor>y\<rfloor>"
      using split_point_unit [of r ?n] by blast
    have "sp = \<lfloor>y\<rfloor>" using sp spy f by simp
    then show ?thesis using y by (simp add: slice_bound_floor)
  qed
  have 2: "normalization (train_of data sp) = Inr (?mean, ?sigma)"
    using c by (simp add: normalization_eq)
  have 3: "?train_labels = map last (take ?k (rows data))"
    using lab by (auto dest: in_set_takeD)
  have 4: "?test_labels = map last (drop ?k (rows data))"
    using lab by (auto dest: in_set_dropD)
  have sl: "length (?scale (take ?c r)) = ?c" if "r \<in> set (rows data)" for r
    using len [OF that] by simp
  have 5: "wf_ndarray ?train" unfolding wf_ndarray_def using sl
    by (auto simp: list_all_iff dest: in_set_takeD)
  have 6: "wf_ndarray ?test" unfolding wf_ndarray_def using sl
    by (auto simp: list_all_iff dest: in_set_dropD)
  have ent: "?scale (take ?c r) ! j = np_div (np_sub (r ! j) (?mean ! j)) (?sigma ! j)"
    if "r \<in> set (rows data)" "j < ?c" for r j
    using len [OF that(1)] that(2) by simp
  have 7: "\<forall>i<?k. \<forall>j<?c. rows ?train ! i ! j
             = np_div (np_sub (rows data ! i ! j) (?mean ! j)) (?sigma ! j)"
  proof (intro allI impI)
    fix i j assume i: "i < ?k" and j: "j < ?c"
    have "rows data ! i \<in> set (rows data)" using i kn by simp
    from ent [OF this j] show "rows ?train ! i ! j
        = np_div (np_sub (rows data ! i ! j) (?mean ! j)) (?sigma ! j)"
      using i kn by simp
  qed
  have 8: "\<forall>i<?n - ?k. \<forall>j<?c. rows ?test ! i ! j
             = np_div (np_sub (rows data ! (?k + i) ! j) (?mean ! j)) (?sigma ! j)"
  proof (intro allI impI)
    fix i j assume i: "i < ?n - ?k" and j: "j < ?c"
    have "rows data ! (?k + i) \<in> set (rows data)" using i kn by simp
    from ent [OF this j] show "rows ?test ! i ! j
        = np_div (np_sub (rows data ! (?k + i) ! j) (?mean ! j)) (?sigma ! j)"
      using i kn by simp
  qed
  have 9: "length (rows ?train) = ?k" "length (rows ?test) = ?n - ?k"
     "ncols ?train = ?c" "ncols ?test = ?c"
    using kn by simp_all
  from ksp have 10: "\<forall>r. f = Fin r \<and> 0 \<le> r \<and> r \<le> 1 \<and> ?n < 2 ^ 53 \<longrightarrow> int ?k = sp"
    by blast
  show ?thesis
    apply (rule exI [of _ ?train], rule exI [of _ ?train_labels])
    apply (rule exI [of _ ?test], rule exI [of _ ?test_labels])
    apply (rule exI [of _ ?k], rule exI [of _ ?mean], rule exI [of _ ?sigma])
    using 0 1 10 2 3 4 5 6 7 8 9 apply (intro conjI)
                   apply assumption+
             apply (rule refl)
            apply assumption+
    done
qed

theorem contiguous_split_witness:
  "wf_ndarray \<lparr>ncols = 3, rows = [[Fin 1, Fin 1, Fin 5], [Fin (- 1), Fin 3, Fin 6],
                                   [Fin 0, Fin 3, Fin 7], [Fin 0, Fin 7, Fin 8]]\<rparr>
   \<and> split_point 4 (Fin (1 / 2)) = Inr 2
   \<and> split_and_preprocess
       \<lparr>ncols = 3, rows = [[Fin 1, Fin 1, Fin 5], [Fin (- 1), Fin 3, Fin 6],
                          [Fin 0, Fin 3, Fin 7], [Fin 0, Fin 7, Fin 8]]\<rparr> (Fin (1 / 2))
     = Inr (\<lparr>ncols = 2, rows = [[Fin 1, Fin (- 1)], [Fin (- 1), Fin 1]]\<rparr>,
            map last (take 2 [[Fin 1, Fin 1, Fin 5], [Fin (- 1), Fin 3, Fin 6],
                              [Fin 0, Fin 3, Fin 7], [Fin 0, Fin 7, Fin 8]]),
            \<lparr>ncols = 2, rows = [[Fin 0, Fin 1], [Fin 0, Fin 5]]\<rparr>,
            map last (drop 2 [[Fin 1, Fin 1, Fin 5], [Fin (- 1), Fin 3, Fin 6],
                              [Fin 0, Fin 3, Fin 7], [Fin 0, Fin 7, Fin 8]]))
   \<and> wf_ndarray \<lparr>ncols = 2, rows = [[Fin 1, Fin (- 1)], [Fin (- 1), Fin 1]]\<rparr>
   \<and> wf_ndarray \<lparr>ncols = 2, rows = [[Fin 0, Fin 1], [Fin 0, Fin 5]]\<rparr>"
proof -
  let ?d = "\<lparr>ncols = 3, rows = [[Fin 1, Fin 1, Fin 5], [Fin (- 1), Fin 3, Fin 6],
                               [Fin 0, Fin 3, Fin 7], [Fin 0, Fin 7, Fin 8]]\<rparr>"
  have wf: "wf_ndarray ?d" by (simp add: wf_ndarray_def)
  have c: "2 \<le> ncols ?d" by simp
  have sp4: "split_point 4 (Fin (1 / 2)) = Inr 2" by (rule split_point_4_half) simp
  have sp: "split_point (length (rows ?d)) (Fin (1 / 2)) = Inr 2"
    by (rule split_point_4_half) simp
  have k: "slice_bound (length (rows ?d)) 2 = 2" by (simp add: slice_bound_def)
  from contiguous_split [OF wf c sp] obtain train train_labels test test_labels
    where r: "split_and_preprocess ?d (Fin (1 / 2)) = Inr (train, train_labels, test, test_labels)"
      and l: "train_labels = map last (take 2 (rows ?d))"
         "test_labels = map last (drop 2 (rows ?d))"
      and w: "wf_ndarray train" "wf_ndarray test"
    unfolding k by blast
  from r have e: "train = \<lparr>ncols = 2, rows = [[Fin 1, Fin (- 1)], [Fin (- 1), Fin 1]]\<rparr>"
    "test = \<lparr>ncols = 2, rows = [[Fin 0, Fin 1], [Fin 0, Fin 5]]\<rparr>"
    by (simp_all add: example_half)
  have "split_and_preprocess ?d (Fin (1 / 2))
      = Inr (\<lparr>ncols = 2, rows = [[Fin 1, Fin (- 1)], [Fin (- 1), Fin 1]]\<rparr>,
             map last (take 2 (rows ?d)),
             \<lparr>ncols = 2, rows = [[Fin 0, Fin 1], [Fin 0, Fin 5]]\<rparr>,
             map last (drop 2 (rows ?d)))"
    using r unfolding l e .
  then show ?thesis using wf sp4 w unfolding e by simp
qed

section \<open>Statistics of the training partition\<close>

lemma train_of_cong:
  assumes "ncols d1 = ncols d2"
    and "take (slice_bound (length (rows d1)) sp) (rows d1)
       = take (slice_bound (length (rows d2)) sp) (rows d2)"
  shows "train_of d1 sp = train_of d2 sp"
  using assms by (simp add: train_of_def cols_upto_last rows_upto_def)

text \<open>
  Claim C4. Two inputs of the same shape that agree on the rows before the
  split point get the same split point (or the same exception from it), the
  same means and standard deviations (or the same exception), and the same
  normalised training matrix and training labels: nothing of the test
  partition enters the statistics.
\<close>

theorem statistics_from_training_only:
  assumes "ncols d1 = ncols d2" and "length (rows d1) = length (rows d2)"
    and "\<forall>sp. split_point (length (rows d1)) f = Inr sp \<longrightarrow>
           (\<forall>i < slice_bound (length (rows d1)) sp. rows d1 ! i = rows d2 ! i)"
  shows "split_point (length (rows d1)) f = split_point (length (rows d2)) f
       \<and> (\<forall>sp. split_point (length (rows d1)) f = Inr sp \<longrightarrow>
            normalization (train_of d1 sp) = normalization (train_of d2 sp))
       \<and> map_sum id (\<lambda>(train, train_labels, test, test_labels). (train, train_labels))
            (split_and_preprocess d1 f)
         = map_sum id (\<lambda>(train, train_labels, test, test_labels). (train, train_labels))
            (split_and_preprocess d2 f)"
proof (cases "split_point (length (rows d1)) f")
  case (Inl e)
  then have "split_point (length (rows d2)) f = Inl e" using assms(2) by simp
  with Inl show ?thesis using assms(2) by (simp add: split_and_preprocess_no_split)
next
  case (Inr sp)
  then have sp2: "split_point (length (rows d2)) f = Inr sp" using assms(2) by simp
  let ?k = "slice_bound (length (rows d1)) sp"
  have kn: "?k \<le> length (rows d1)" by (rule slice_bound_le)
  have "\<forall>i < ?k. rows d1 ! i = rows d2 ! i" using assms(3) Inr by blast
  then have tk: "take ?k (rows d1) = take (slice_bound (length (rows d2)) sp) (rows d2)"
    using assms(2) kn by (intro nth_equalityI) auto
  have tr: "train_of d1 sp = train_of d2 sp"
    using assms(1) tk by (rule train_of_cong)
  show ?thesis
  proof (cases "ncols d1 < 2")
    case True
    then have "ncols d2 < 2" using assms(1) by simp
    then show ?thesis using True Inr sp2 tr assms(2)
      by (simp add: split_and_preprocess_raises)
  next
    case False
    then have c1: "2 \<le> ncols d1" and c2: "2 \<le> ncols d2" using assms(1) by simp_all
    show ?thesis
      unfolding split_and_preprocess_returns [OF Inr c1] split_and_preprocess_returns [OF sp2 c2]
        Let_def
      using tr tk assms(1,2) Inr by simp
  qed
qed

theorem statistics_from_training_only_witness:
  "map_sum id (\<lambda>(train, train_labels, test, test_labels). (train, train_labels))
     (split_and_preprocess
        \<lparr>ncols = 3, rows = [[Fin 1, Fin 1, Fin 5], [Fin (- 1), Fin 3, Fin 6],
                           [Fin 9, Fin 2, Fin 0], [Fin 4, Fin (- 8), Fin 1]]\<rparr> (Fin (1 / 2)))
   = Inr (\<lparr>ncols = 2, rows = [[Fin 1, Fin (- 1)], [Fin (- 1), Fin 1]]\<rparr>, [Fin 5, Fin 6])"
proof -
  let ?d1 = "\<lparr>ncols = 3, rows = [[Fin 1, Fin 1, Fin 5], [Fin (- 1), Fin 3, Fin 6],
                                [Fin 0, Fin 3, Fin 7], [Fin 0, Fin 7, Fin 8]]\<rparr>"
  let ?d2 = "\<lparr>ncols = 3, rows = [[Fin 1, Fin 1, Fin 5], [Fin (- 1), Fin 3, Fin 6],
                                [Fin 9, Fin 2, Fin 0], [Fin 4, Fin (- 8), Fin 1]]\<rparr>"
  have 1: "ncols ?d1 = ncols ?d2" and 2: "length (rows ?d1) = length (rows ?d2)"
    by simp_all
  have sp: "split_point (length (rows ?d1)) (Fin (1 / 2)) = Inr 2"
    by (rule split_point_4_half) simp
  have k: "slice_bound (length (rows ?d1)) 2 = 2" by (simp add: slice_bound_def)
  have 3: "\<forall>sp. split_point (length (rows ?d1)) (Fin (1 / 2)) = Inr sp \<longrightarrow>
             (\<forall>i < slice_bound (length (rows ?d1)) sp. rows ?d1 ! i = rows ?d2 ! i)"
    unfolding sp by (simp add: slice_bound_def less_Suc_eq)
  show ?thesis
    using statistics_from_training_only [OF 1 2 3] by (simp add: example_half)
qed

section \<open>Normalised training features\<close>

text \<open>
  Claim C1. For a feature column \<open>j \<ge> 1\<close> whose standard deviation over the
  training partition is a nonzero number, column \<open>j\<close> of the normalised training
  matrix has mean exactly 0 and standard deviation exactly 1, over exact real
  arithmetic. (A standard deviation that is a number needs a non-empty training
  partition with finite entries in that column.)
\<close>

theorem normalized_training_moments:
  assumes "wf_ndarray data"
    and "split_and_preprocess data f = Inr (train, train_labels, test, test_labels)"
    and "1 \<le> j" and "j < ncols data - 1"
    and "split_point (length (rows data)) f = Inr sp"
    and "std_axis0 (train_of data sp) ! j = Fin s" and "s \<noteq> 0"
  shows "np_mean (column train j) = Fin 0 \<and> np_std (column train j) = Fin 1"
proof -
  let ?T = "train_of data sp"
  let ?c = "ncols data - 1"
  let ?mean = "(mean_axis0 ?T)[0 := Fin 0]"
  let ?sigma = "(std_axis0 ?T)[0 := Fin 1]"
  let ?scale = "\<lambda>r. map2 np_div (map2 np_sub r ?mean) ?sigma"
  let ?xs = "column ?T j"
  note sp = assms(5)
  have c: "2 \<le> ncols data" using assms(4) by simp
  have jT: "j < ncols ?T" using assms(4) by simp
  have sd: "np_std ?xs = Fin s"
    using assms(6) jT by (simp add: std_axis0_def)
  have mj: "?mean ! j = np_mean ?xs"
    using assms(3) jT by (simp add: mean_axis0_def)
  have sj: "?sigma ! j = Fin s"
    using assms(3,6) by simp
  have len: "length r = ?c" if "r \<in> set (rows ?T)" for r
  proof -
    from that obtain r' where "r' \<in> set (rows data)" "r = take ?c r'"
      by (auto simp: rows_train_of dest: in_set_takeD)
    moreover have "length r' = ncols data"
      using assms(1) \<open>r' \<in> set (rows data)\<close> by (rule wf_row_length)
    ultimately show ?thesis by simp
  qed
  have tr: "rows train = map ?scale (rows ?T)"
    using assms(2) unfolding split_and_preprocess_returns [OF sp c] Let_def by auto
  have "column train j = map (\<lambda>r. ?scale r ! j) (rows ?T)"
    by (simp add: column_def tr)
  also have "\<dots> = map (\<lambda>r. np_div (np_sub (r ! j) (np_mean ?xs)) (Fin s)) (rows ?T)"
  proof (rule map_cong [OF refl])
    fix r assume "r \<in> set (rows ?T)"
    then have "length r = ?c" by (rule len)
    then have "?scale r ! j = np_div (np_sub (r ! j) (?mean ! j)) (?sigma ! j)"
      using assms(4) by simp
    then show "?scale r ! j = np_div (np_sub (r ! j) (np_mean ?xs)) (Fin s)"
      by (simp only: mj sj)
  qed
  also have "\<dots> = map (\<lambda>x. np_div (np_sub x (np_mean ?xs)) (Fin s)) ?xs"
    by (simp add: column_def o_def)
  finally have col: "column train j = map (\<lambda>x. np_div (np_sub x (np_mean ?xs)) (Fin s)) ?xs" .
  have "list_all is_Fin ?xs" using is_Fin_np_std [of ?xs] sd by simp
  then obtain rs where rs: "?xs = map Fin rs" using all_Fin_map by blast
  show ?thesis
    using standardised_moments [of rs s] sd assms(7) unfolding col rs by simp
qed

theorem normalized_training_moments_witness:
  "wf_ndarray \<lparr>ncols = 3, rows = [[Fin 1, Fin 1, Fin 5], [Fin (- 1), Fin 3, Fin 6],
                                   [Fin 0, Fin 3, Fin 7], [Fin 0, Fin 7, Fin 8]]\<rparr>
   \<and> split_and_preprocess
       \<lparr>ncols = 3, rows = [[Fin 1, Fin 1, Fin 5], [Fin (- 1), Fin 3, Fin 6],
                          [Fin 0, Fin 3, Fin 7], [Fin 0, Fin 7, Fin 8]]\<rparr> (Fin (1 / 2))
     = Inr (\<lparr>ncols = 2, rows = [[Fin 1, Fin (- 1)], [Fin (- 1), Fin 1]]\<rparr>, [Fin 5, Fin 6],
            \<lparr>ncols = 2, rows = [[Fin 0, Fin 1], [Fin 0, Fin 5]]\<rparr>, [Fin 7, Fin 8])
   \<and> split_point 4 (Fin (1 / 2)) = Inr 2
   \<and> std_axis0 (train_of \<lparr>ncols = 3, rows = [[Fin 1, Fin 1, Fin 5], [Fin (- 1), Fin 3, Fin 6],
                                             [Fin 0, Fin 3, Fin 7], [Fin 0, Fin 7, Fin 8]]\<rparr> 2) ! 1
       = Fin 1
   \<and> np_mean (column \<lparr>ncols = 2, rows = [[Fin 1, Fin (- 1)], [Fin (- 1), Fin 1]]\<rparr> 1) = Fin 0
   \<and> np_std (column \<lparr>ncols = 2, rows = [[Fin 1, Fin (- 1)], [Fin (- 1), Fin 1]]\<rparr> 1) = Fin 1"
proof -
  let ?d = "\<lparr>ncols = 3, rows = [[Fin 1, Fin 1, Fin 5], [Fin (- 1), Fin 3, Fin 6],
                               [Fin 0, Fin 3, Fin 7], [Fin 0, Fin 7, Fin 8]]\<rparr>"
  have wf: "wf_ndarray ?d" by (simp add: wf_ndarray_def)
  have j: "(1::nat) \<le> 1" "1 < ncols ?d - 1" by simp_all
  have sp4: "split_point 4 (Fin (1 / 2)) = Inr 2" by (rule split_point_4_half) simp
  have sp: "split_point (length (rows ?d)) (Fin (1 / 2)) = Inr 2"
    by (rule split_point_4_half) simp
  have sd: "std_axis0 (train_of ?d 2) ! 1 = Fin 1"
    by (simp add: eval_simps)
  have s: "(1::real) \<noteq> 0" by simp
  show ?thesis
    using wf sd sp4 example_half normalized_training_moments [OF wf example_half j sp sd s]
    by simp
qed

section \<open>The training history\<close>

lemma on_epoch_end_initialised:
  assumes "loss self = Some l" "validation_loss self = Some v"
  shows "on_epoch_end self epoch logs =
     (None, self\<lparr>loss := Some (l @ (case logs ''loss'' of None \<Rightarrow> [] | Some x \<Rightarrow> [x])),
                 validation_loss := Some (v @ (case logs ''val_loss'' of None \<Rightarrow> [] | Some y \<Rightarrow> [y]))\<rparr>)"
  using assms by (simp add: on_epoch_end_def split: option.splits)

lemma map_filter_Cons:
  "List.map_filter g (x # xs) = (case g x of None \<Rightarrow> [] | Some y \<Rightarrow> [y]) @ List.map_filter g xs"
  by (simp add: List.map_filter_simps split: option.splits)

lemma epochs_initialised:
  assumes "loss self = Some l" "validation_loss self = Some v"
  shows "epochs self calls =
     (None, self\<lparr>loss := Some (l @ List.map_filter (\<lambda>(epoch, logs). logs ''loss'') calls),
                 validation_loss :=
                   Some (v @ List.map_filter (\<lambda>(epoch, logs). logs ''val_loss'') calls)\<rparr>)"
  using assms
proof (induction calls arbitrary: self l v)
  case Nil
  then show ?case by (simp add: List.map_filter_simps)
next
  case (Cons c calls)
  obtain epoch logs where c: "c = (epoch, logs)" by (cases c)
  let ?l = "l @ (case logs ''loss'' of None \<Rightarrow> [] | Some x \<Rightarrow> [x])"
  let ?v = "v @ (case logs ''val_loss'' of None \<Rightarrow> [] | Some y \<Rightarrow> [y])"
  let ?self = "self\<lparr>loss := Some ?l, validation_loss := Some ?v\<rparr>"
  have step: "on_epoch_end self epoch logs = (None, ?self)"
    using Cons.prems by (rule on_epoch_end_initialised)
  have "epochs ?self calls =
     (None, ?self\<lparr>loss := Some (?l @ List.map_filter (\<lambda>(epoch, logs). logs ''loss'') calls),
                 validation_loss :=
                   Some (?v @ List.map_filter (\<lambda>(epoch, logs). logs ''val_loss'') calls)\<rparr>)"
    by (rule Cons.IH) simp_all
  then show ?case
    by (simp add: c step map_filter_Cons del: map_filter_simps)
qed

text \<open>
  Claim C6. After \<^verbatim>\<open>on_train_begin\<close>, any sequence of \<^verbatim>\<open>on_epoch_end\<close> calls runs
  without an exception and leaves in \<open>loss\<close> exactly the \<^verbatim>\<open>'loss'\<close> values of the
  logs that have this key, in call order, and in \<open>validation_loss\<close> exactly the
  \<^verbatim>\<open>'val_loss'\<close> values of the logs that have that key, in call order; nothing
  else of the object changes.
\<close>

theorem history_accumulates:
  "epochs (on_train_begin self logs0) calls =
     (None, self\<lparr>loss := Some (List.map_filter (\<lambda>(epoch, logs). logs ''loss'') calls),
                 validation_loss :=
                   Some (List.map_filter (\<lambda>(epoch, logs). logs ''val_loss'') calls)\<rparr>)"
  using epochs_initialised [of "on_train_begin self logs0" "[]" "[]" calls]
  by (simp add: on_train_begin_def)

section \<open>The training history in a store\<close>

lemma length_append_st [simp]: "length (append_st p x s) = length s"
  by (simp add: append_st_def)

lemma nth_append_st:
  "append_st p x s ! q = (if q = p \<and> p < length s then s ! p @ [x] else s ! q)"
  by (cases "p < length s") (auto simp: append_st_def nth_list_update list_update_beyond)

text \<open>
  On an object whose members are separate lists in the store, the calls on the
  store do what the calls on the record of lists do, and \<^verbatim>\<open>on_train_begin\<close> makes
  such an object.
\<close>

lemma on_train_begin_st_refines:
  "members (snd (on_train_begin_st self logs s)) (fst (on_train_begin_st self logs s))
     = on_train_begin (members s self) logs
   \<and> separate (fst (on_train_begin_st self logs s))
   \<and> loss_ref (fst (on_train_begin_st self logs s)) = Some (length s)
   \<and> validation_loss_ref (fst (on_train_begin_st self logs s)) = Some (length s + 1)
   \<and> length (snd (on_train_begin_st self logs s)) = length s + 2"
  by (simp add: on_train_begin_st_def on_train_begin_def members_def separate_def nth_append)

lemma on_epoch_end_st_refines:
  assumes "separate self"
    and "\<forall>p. loss_ref self = Some p \<longrightarrow> p < length s"
    and "\<forall>q. validation_loss_ref self = Some q \<longrightarrow> q < length s"
  shows "on_epoch_end (members s self) epoch logs
       = (fst (on_epoch_end_st self epoch logs s),
          members (snd (on_epoch_end_st self epoch logs s)) self)"
proof (cases "loss_ref self"; cases "validation_loss_ref self";
    cases "logs ''loss''"; cases "logs ''val_loss''")
qed (use assms in \<open>auto simp: on_epoch_end_def on_epoch_end_st_def members_def separate_def
      nth_append_st\<close>)

text \<open>
  When both members are one list object, a value appended through one member
  is in the other: a call whose logs lack \<^verbatim>\<open>'loss'\<close> changes what \<open>loss\<close> holds.
\<close>

lemma on_epoch_end_st_aliased:
  "snd (on_epoch_end_st \<lparr>loss_ref = Some 0, validation_loss_ref = Some 0\<rparr> 0
          [''val_loss'' \<mapsto> (3::real)] [[1]]) = [[1, 3]]
   \<and> loss (members [[1::real]] \<lparr>loss_ref = Some 0, validation_loss_ref = Some 0\<rparr>) = Some [1]
   \<and> loss (members [[1, 3::real]] \<lparr>loss_ref = Some 0, validation_loss_ref = Some 0\<rparr>)
       = Some [1, 3]"
  by (simp add: on_epoch_end_st_def append_st_def members_def)

text \<open>
  Claim C9. A call of \<^verbatim>\<open>on_epoch_end\<close> changes no list object other than the one
  \<open>loss\<close> refers to, and that only when the logs have \<^verbatim>\<open>'loss'\<close>, and the one
  \<open>validation_loss\<close> refers to, and that only when the logs have \<^verbatim>\<open>'val_loss'\<close>;
  it creates no object and binds no attribute. So on an object whose two
  members are separate lists, as \<^verbatim>\<open>on_train_begin\<close> makes them, a call whose logs
  lack \<^verbatim>\<open>'loss'\<close> leaves \<open>loss\<close> as it was and one whose logs lack \<^verbatim>\<open>'val_loss'\<close>
  leaves \<open>validation_loss\<close> as it was. This holds also when the call raises.
\<close>

theorem on_epoch_end_frame:
  "length (snd (on_epoch_end_st self epoch logs s)) = length s
 \<and> (\<forall>p. snd (on_epoch_end_st self epoch logs s) ! p \<noteq> s ! p \<longrightarrow>
        (logs ''loss'' \<noteq> None \<and> loss_ref self = Some p)
      \<or> (logs ''val_loss'' \<noteq> None \<and> validation_loss_ref self = Some p))
 \<and> (separate self \<and> logs ''loss'' = None \<longrightarrow>
        loss (members (snd (on_epoch_end_st self epoch logs s)) self) = loss (members s self))
 \<and> (separate self \<and> logs ''val_loss'' = None \<longrightarrow>
        validation_loss (members (snd (on_epoch_end_st self epoch logs s)) self)
          = validation_loss (members s self))"
proof (cases "loss_ref self"; cases "validation_loss_ref self";
    cases "logs ''loss''"; cases "logs ''val_loss''")
qed (auto simp: on_epoch_end_st_def members_def separate_def nth_append_st)

theorem on_epoch_end_frame_witness:
  "separate \<lparr>loss_ref = Some 0, validation_loss_ref = Some 1\<rparr>
 \<and> [''val_loss'' \<mapsto> (3::real)] ''loss'' = None
 \<and> snd (on_epoch_end_st \<lparr>loss_ref = Some 0, validation_loss_ref = Some 1\<rparr> 0
          [''val_loss'' \<mapsto> (3::real)] [[1], [2]]) = [[1], [2, 3]]
 \<and> loss (members [[1], [2, 3::real]] \<lparr>loss_ref = Some 0, validation_loss_ref = Some 1\<rparr>)
     = loss (members [[1], [2::real]] \<lparr>loss_ref = Some 0, validation_loss_ref = Some 1\<rparr>)
 \<and> [''loss'' \<mapsto> (3::real)] ''val_loss'' = None
 \<and> snd (on_epoch_end_st \<lparr>loss_ref = Some 0, validation_loss_ref = Some 1\<rparr> 0
          [''loss'' \<mapsto> (3::real)] [[1], [2]]) = [[1, 3], [2]]
 \<and> validation_loss (members [[1, 3], [2::real]] \<lparr>loss_ref = Some 0, validation_loss_ref = Some 1\<rparr>)
     = validation_loss (members [[1], [2::real]] \<lparr>loss_ref = Some 0, validation_loss_ref = Some 1\<rparr>)"
proof -
  let ?self = "\<lparr>loss_ref = Some 0, validation_loss_ref = Some 1\<rparr>"
  have sep: "separate ?self" by (simp add: separate_def)
  have 1: "snd (on_epoch_end_st ?self 0 [''val_loss'' \<mapsto> (3::real)] [[1], [2]]) = [[1], [2, 3]]"
    and 2: "snd (on_epoch_end_st ?self 0 [''loss'' \<mapsto> (3::real)] [[1], [2]]) = [[1, 3], [2]]"
    by (simp_all add: on_epoch_end_st_def append_st_def)
  show ?thesis
    using sep
      on_epoch_end_frame [of ?self 0 "[''val_loss'' \<mapsto> (3::real)]" "[[1], [2]]"]
      on_epoch_end_frame [of ?self 0 "[''loss'' \<mapsto> (3::real)]" "[[1], [2]]"]
    unfolding 1 2 by simp
qed

section \<open>The input array in the store\<close>

lemma extends_refl: "extends h h"
  by (simp add: extends_def)

lemma extends_append: "extends h0 h \<Longrightarrow> extends h0 (h @ t)"
  by (simp add: extends_def)

lemma extends_update: "extends h0 h \<Longrightarrow> length h0 \<le> p \<Longrightarrow> extends h0 (h[p := b])"
  by (simp add: extends_def)

lemma keepsI:
  assumes "\<And>h. extends h0 h \<Longrightarrow> extends h0 (snd (m h))"
    and "\<And>h x. extends h0 h \<Longrightarrow> fst (m h) = Inr x \<Longrightarrow> Q x"
  shows "keeps h0 m Q"
  unfolding keeps_def using assms by blast

lemma keeps_heap: "keeps h0 m Q \<Longrightarrow> extends h0 h \<Longrightarrow> extends h0 (snd (m h))"
  unfolding keeps_def by blast

lemma keeps_value: "keeps h0 m Q \<Longrightarrow> extends h0 h \<Longrightarrow> fst (m h) = Inr x \<Longrightarrow> Q x"
  unfolding keeps_def by blast

lemma bind_st_Inl: "fst (m h) = Inl e \<Longrightarrow> bind_st m k h = (Inl e, snd (m h))"
  by (cases "m h") (simp add: bind_st_def)

lemma bind_st_Inr: "fst (m h) = Inr x \<Longrightarrow> bind_st m k h = k x (snd (m h))"
  by (cases "m h") (simp add: bind_st_def)

lemma keeps_bind:
  assumes m: "keeps h0 m Q" and k: "\<And>x. Q x \<Longrightarrow> keeps h0 (k x) R"
  shows "keeps h0 (bind_st m k) R"
proof (rule keepsI)
  fix h assume h: "extends h0 h"
  have h1: "extends h0 (snd (m h))" using m h by (rule keeps_heap)
  show "extends h0 (snd (bind_st m k h))"
  proof (cases "fst (m h)")
    case (Inl e)
    then show ?thesis using h1 by (simp add: bind_st_Inl)
  next
    case (Inr x)
    have "Q x" using m h Inr by (rule keeps_value)
    then have "keeps h0 (k x) R" by (rule k)
    then have "extends h0 (snd (k x (snd (m h))))" using h1 by (rule keeps_heap)
    then show ?thesis using Inr by (simp add: bind_st_Inr)
  qed
  fix y assume y: "fst (bind_st m k h) = Inr y"
  show "R y"
  proof (cases "fst (m h)")
    case (Inl e)
    then show ?thesis using y by (simp add: bind_st_Inl)
  next
    case (Inr x)
    have "Q x" using m h Inr by (rule keeps_value)
    then have kx: "keeps h0 (k x) R" by (rule k)
    have "fst (k x (snd (m h))) = Inr y" using y Inr by (simp add: bind_st_Inr)
    with kx h1 show ?thesis by (rule keeps_value)
  qed
qed

lemma keeps_return: "Q x \<Longrightarrow> keeps h0 (return_st x) Q"
  by (rule keepsI) (simp_all add: return_st_def)

lemma keeps_lift_st: "keeps h0 (lift_st r) (\<lambda>_. True)"
  by (rule keepsI) (simp_all add: lift_st_def)

lemma keeps_alloc: "keeps h0 (alloc b) (fresh h0)"
proof (rule keepsI)
  fix h assume h: "extends h0 h"
  then show "extends h0 (snd (alloc b h))" by (simp add: alloc_def extends_append)
  fix x assume "fst (alloc b h) = Inr x"
  then show "fresh h0 x" using h by (auto simp: alloc_def fresh_def extends_def)
qed

lemma keeps_shape0: "keeps h0 (shape0 p) (\<lambda>_. True)"
  by (rule keepsI) (simp_all add: shape0_def split: buffer.splits)

lemma keeps_getitem: "keeps h0 (getitem p rs cs) (\<lambda>_. True)"
  by (rule keepsI) (simp_all add: getitem_def split: buffer.splits sum.splits)

lemma keeps_mean_st: "keeps h0 (mean_st r) (fresh h0)"
  using keeps_alloc unfolding keeps_def mean_st_def by blast

lemma keeps_std_st: "keeps h0 (std_st r) (fresh h0)"
  using keeps_alloc unfolding keeps_def std_st_def by blast

lemma keeps_broadcast_st: "keeps h0 (broadcast_st g r v) (fresh h0)"
proof (rule keepsI)
  fix h assume h: "extends h0 h"
  show "extends h0 (snd (broadcast_st g r v h))"
  proof (cases "broadcast g (as2d (deref h r)) (as1d (deref h v))")
    case (Inl e)
    then show ?thesis using h by (simp add: broadcast_st_def)
  next
    case (Inr b)
    then show ?thesis using keeps_heap [OF keeps_alloc h, of "Buf2 b"]
      by (simp add: broadcast_st_def)
  qed
  fix x assume x: "fst (broadcast_st g r v h) = Inr x"
  show "fresh h0 x"
  proof (cases "broadcast g (as2d (deref h r)) (as1d (deref h v))")
    case (Inl e)
    then show ?thesis using x by (simp add: broadcast_st_def)
  next
    case (Inr b)
    then have "fst (alloc (Buf2 b) h) = Inr x" using x by (simp add: broadcast_st_def)
    with keeps_alloc h show ?thesis by (rule keeps_value)
  qed
qed

lemma setitem_st_Owner:
  "snd (setitem_st (Owner p) i x h) = h \<or> (\<exists>b. snd (setitem_st (Owner p) i x h) = h[p := b])"
proof (cases "h ! p")
  case (Buf1 v)
  then show ?thesis by (cases "setitem v i x") (auto simp: setitem_st_def)
next
  case (Buf2 a)
  then show ?thesis
    by (cases "set_through a (From 0) (Before (int (ncols a))) i x") (auto simp: setitem_st_def)
qed

lemma keeps_setitem_st:
  assumes "fresh h0 r"
  shows "keeps h0 (setitem_st r i x) (\<lambda>_. True)"
proof (rule keepsI)
  from assms obtain p where r: "r = Owner p" and p: "length h0 \<le> p"
    by (auto simp: fresh_def)
  fix h assume h: "extends h0 h"
  from setitem_st_Owner [of p i x h] show "extends h0 (snd (setitem_st r i x h))"
  proof
    assume "snd (setitem_st (Owner p) i x h) = h"
    then show ?thesis using h by (simp add: r)
  next
    assume "\<exists>b. snd (setitem_st (Owner p) i x h) = h[p := b]"
    then obtain b where "snd (setitem_st (Owner p) i x h) = h[p := b]" ..
    then show ?thesis using extends_update [OF h p, of b] by (simp add: r)
  qed
qed simp

lemma keeps_split_and_preprocess_st: "keeps h0 (split_and_preprocess_st data f) (\<lambda>_. True)"
  unfolding split_and_preprocess_st_def
  apply (rule keeps_bind, rule keeps_shape0)
  apply (rule keeps_bind, rule keeps_lift_st)
  apply (rule keeps_bind, rule keeps_getitem)
  apply (rule keeps_bind, rule keeps_getitem)
  apply (rule keeps_bind, rule keeps_getitem)
  apply (rule keeps_bind, rule keeps_getitem)
  apply (rule keeps_bind, rule keeps_mean_st)
  apply (rule keeps_bind, rule keeps_std_st)
  apply (rule keeps_bind, rule keeps_setitem_st, assumption)
  apply (rule keeps_bind, rule keeps_setitem_st, assumption)
  apply (rule keeps_bind, rule keeps_broadcast_st)
  apply (rule keeps_bind, rule keeps_broadcast_st)
  apply (rule keeps_bind, rule keeps_broadcast_st)
  apply (rule keeps_bind, rule keeps_broadcast_st)
  apply (rule keeps_return, rule TrueI)
  done

text \<open>
  The call on the store, in closed form: it raises before or after allocating
  the two statistics, or returns two new arrays and two views of the input. What
  the returned references hold in the final store is what the function on
  values returns.
\<close>

lemmas st_defs = split_and_preprocess_st_def bind_st_def shape0_def lift_st_def getitem_def
  mean_st_def std_st_def alloc_def setitem_st_def broadcast_st_def return_st_def

lemma select_label: "select a rs (Index label_index) =
   (if ncols a = 0 then Inl IndexError else Inr (Buf1 (column (select_rows a rs) (ncols a - 1))))"
  by (cases rs) (simp_all add: col_index_last rows_upto_def rows_from_def)

lemma mean_axis0_Nil [simp]: "mean_axis0 a = [] \<longleftrightarrow> ncols a = 0"
  by (simp add: mean_axis0_def)

lemma std_axis0_Nil [simp]: "std_axis0 a = [] \<longleftrightarrow> ncols a = 0"
  by (simp add: std_axis0_def)

lemma st_no_split:
  assumes "h ! data = Buf2 d" "split_point (length (rows d)) f = Inl e"
  shows "split_and_preprocess_st data f h = (Inl e, h)"
  using assms by (simp add: st_defs)

lemma st_raises0:
  assumes "h ! data = Buf2 d" "split_point (length (rows d)) f = Inr sp" "ncols d = 0"
  shows "split_and_preprocess_st data f h = (Inl IndexError, h)"
  using assms by (simp add: st_defs Let_def select_label del: select.simps(1))

lemma st_raises1:
  assumes "data < length h" "h ! data = Buf2 d" "split_point (length (rows d)) f = Inr sp"
    "ncols d = 1"
  shows "split_and_preprocess_st data f h = (Inl IndexError, h @ [Buf1 [], Buf1 []])"
  using assms by (simp add: st_defs Let_def select_label nth_append setitem_0 cols_upto_last
   mean_axis0_def std_axis0_def rows_upto_def del: select.simps(1))

lemma st_returns:
  assumes "data < length h" "h ! data = Buf2 d" "split_point (length (rows d)) f = Inr sp"
    "2 \<le> ncols d"
  shows "split_and_preprocess_st data f h =
    (let mean = (mean_axis0 (train_of d sp))[0 := Fin 0];
         sigma = (std_axis0 (train_of d sp))[0 := Fin 1];
         centre = (\<lambda>a. \<lparr>ncols = ncols d - 1, rows = map (\<lambda>r. map2 np_sub r mean) (rows a)\<rparr>);
         scale = (\<lambda>a. \<lparr>ncols = ncols d - 1, rows = map (\<lambda>r. map2 np_div r sigma) (rows a)\<rparr>)
     in (Inr (Owner (length h + 3), View data (Upto sp) (Index label_index),
              Owner (length h + 5), View data (From sp) (Index label_index)),
         h @ [Buf1 mean, Buf1 sigma,
              Buf2 (centre (train_of d sp)), Buf2 (scale (centre (train_of d sp))),
              Buf2 (centre (test_of d sp)), Buf2 (scale (centre (test_of d sp)))]))"
  using assms
  by (simp add: st_defs Let_def select_label nth_append setitem_0 cols_upto_last
     list_update_append broadcast_def rows_upto_def rows_from_def
     train_of_def test_of_def del: select.simps(1))

lemma st_refines:
  assumes "data < length h" "h ! data = Buf2 d"
  shows "map_sum id
           (\<lambda>(train, train_labels, test, test_labels).
              (as2d (deref (snd (split_and_preprocess_st data f h)) train),
               as1d (deref (snd (split_and_preprocess_st data f h)) train_labels),
               as2d (deref (snd (split_and_preprocess_st data f h)) test),
               as1d (deref (snd (split_and_preprocess_st data f h)) test_labels)))
           (fst (split_and_preprocess_st data f h))
       = split_and_preprocess d f"
proof (cases "split_point (length (rows d)) f")
  case (Inl e)
  then show ?thesis using assms by (simp add: st_no_split split_and_preprocess_no_split)
next
  case (Inr sp)
  consider "ncols d = 0" | "ncols d = 1" | "2 \<le> ncols d" by linarith
  then show ?thesis
  proof cases
    case 1
    then show ?thesis using assms Inr
      by (simp add: st_raises0 split_and_preprocess_raises [OF Inr])
  next
    case 2
    then show ?thesis using assms Inr
      by (simp add: st_raises1 split_and_preprocess_raises [OF Inr])
  next
    case 3
    show ?thesis
      unfolding st_returns [OF assms Inr 3] split_and_preprocess_returns [OF Inr 3] Let_def
      using assms 3
      by (simp add: nth_append select_label col_index_last rows_train_of rows_test_of
          rows_upto_def rows_from_def column_def del: select.simps(1))
  qed
qed

text \<open>
  Claim C7. The call never modifies its input: every buffer that was in the
  store before the call, the one of the input array among them, is in the store
  after the call with the same contents, whether the call returns or raises.
  The only writes, \<^verbatim>\<open>mean[0]\<close> and \<^verbatim>\<open>sigma[0]\<close>, go to buffers the call allocated.
\<close>

theorem input_not_modified:
  "take (length h) (snd (split_and_preprocess_st data f h)) = h
 \<and> (data < length h \<longrightarrow> snd (split_and_preprocess_st data f h) ! data = h ! data)"
proof (intro conjI impI)
  let ?h' = "snd (split_and_preprocess_st data f h)"
  have "extends h ?h'"
    using keeps_split_and_preprocess_st extends_refl by (rule keeps_heap)
  then show t: "take (length h) ?h' = h" by (simp add: extends_def)
  assume "data < length h"
  then have "take (length h) ?h' ! data = ?h' ! data" by (rule nth_take)
  then show "?h' ! data = h ! data" by (simp only: t)
qed

theorem input_not_modified_witness:
  "(0::nat) < length [Buf2 \<lparr>ncols = 3, rows = [[Fin 1, Fin 1, Fin 5], [Fin (- 1), Fin 3, Fin 6],
                                                [Fin 0, Fin 3, Fin 7], [Fin 0, Fin 7, Fin 8]]\<rparr>]
 \<and> fst (split_and_preprocess_st 0 (Fin (1 / 2))
          [Buf2 \<lparr>ncols = 3, rows = [[Fin 1, Fin 1, Fin 5], [Fin (- 1), Fin 3, Fin 6],
                                    [Fin 0, Fin 3, Fin 7], [Fin 0, Fin 7, Fin 8]]\<rparr>])
     = Inr (Owner 4, View 0 (Upto 2) (Index label_index),
            Owner 6, View 0 (From 2) (Index label_index))
 \<and> snd (split_and_preprocess_st 0 (Fin (1 / 2))
          [Buf2 \<lparr>ncols = 3, rows = [[Fin 1, Fin 1, Fin 5], [Fin (- 1), Fin 3, Fin 6],
                                    [Fin 0, Fin 3, Fin 7], [Fin 0, Fin 7, Fin 8]]\<rparr>]) ! 0
     = Buf2 \<lparr>ncols = 3, rows = [[Fin 1, Fin 1, Fin 5], [Fin (- 1), Fin 3, Fin 6],
                                [Fin 0, Fin 3, Fin 7], [Fin 0, Fin 7, Fin 8]]\<rparr>"
proof -
  let ?d = "\<lparr>ncols = 3, rows = [[Fin 1, Fin 1, Fin 5], [Fin (- 1), Fin 3, Fin 6],
                               [Fin 0, Fin 3, Fin 7], [Fin 0, Fin 7, Fin 8]]\<rparr>"
  have sp: "split_point (length (rows ?d)) (Fin (1 / 2)) = Inr 2"
    by (rule split_point_4_half) simp
  have "fst (split_and_preprocess_st 0 (Fin (1 / 2)) [Buf2 ?d])
      = Inr (Owner 4, View 0 (Upto 2) (Index label_index),
             Owner 6, View 0 (From 2) (Index label_index))"
    by (simp add: st_returns [of 0 "[Buf2 ?d]" ?d "Fin (1 / 2)" 2, OF _ _ sp] Let_def)
  then show ?thesis
    using input_not_modified [of "[Buf2 ?d]" 0 "Fin (1 / 2)"] by simp
qed


section \<open>Exceptions and division by zero\<close>

text \<open>
  Two of the four samples have the same value in feature column 1: its standard
  deviation over the training partition is 0.
\<close>

lemma example_zero_sigma:
  "split_and_preprocess
     \<lparr>ncols = 3, rows = [[Fin 1, Fin 2, Fin 5], [Fin (- 1), Fin 2, Fin 6],
                        [Fin 0, Fin 3, Fin 7], [Fin 0, Fin 1, Fin 8]]\<rparr> (Fin (1 / 2))
   = Inr (\<lparr>ncols = 2, rows = [[Fin 1, NaN], [Fin (- 1), NaN]]\<rparr>, [Fin 5, Fin 6],
          \<lparr>ncols = 2, rows = [[Fin 0, PInf], [Fin 0, NInf]]\<rparr>, [Fin 7, Fin 8])"
  by (simp add: split_point_4_half eval_simps)

text \<open>
  Claim C8 says that on a well-shaped input the call completes without error
  and that a guarded division would never take its error branch. The call does
  complete, but the divisor can be zero: on the well-formed input below, with
  finite entries, three columns and the training fraction \<open>1 / 2\<close>, the split
  point is 2 and \<open>sigma\<close> is \<open>[1, 0]\<close>; the training entries of column 1 are
  \<^verbatim>\<open>0/0 = nan\<close> and the test entries \<^verbatim>\<open>1/0 = inf\<close> and \<^verbatim>\<open>-1/0 = -inf\<close>.
\<close>

theorem zero_divisor_reached:
  "wf_ndarray \<lparr>ncols = 3, rows = [[Fin 1, Fin 2, Fin 5], [Fin (- 1), Fin 2, Fin 6],
                                   [Fin 0, Fin 3, Fin 7], [Fin 0, Fin 1, Fin 8]]\<rparr>
 \<and> split_point 4 (Fin (1 / 2)) = Inr 2
 \<and> normalization
       (train_of \<lparr>ncols = 3, rows = [[Fin 1, Fin 2, Fin 5], [Fin (- 1), Fin 2, Fin 6],
                                     [Fin 0, Fin 3, Fin 7], [Fin 0, Fin 1, Fin 8]]\<rparr> 2)
     = Inr ([Fin 0, Fin 2], [Fin 1, Fin 0])
 \<and> split_and_preprocess
       \<lparr>ncols = 3, rows = [[Fin 1, Fin 2, Fin 5], [Fin (- 1), Fin 2, Fin 6],
                          [Fin 0, Fin 3, Fin 7], [Fin 0, Fin 1, Fin 8]]\<rparr> (Fin (1 / 2))
     = Inr (\<lparr>ncols = 2, rows = [[Fin 1, NaN], [Fin (- 1), NaN]]\<rparr>, [Fin 5, Fin 6],
            \<lparr>ncols = 2, rows = [[Fin 0, PInf], [Fin 0, NInf]]\<rparr>, [Fin 7, Fin 8])"
proof -
  have "split_point 4 (Fin (1 / 2)) = Inr 2" by (rule split_point_4_half) simp
  then show ?thesis
    by (simp add: example_zero_sigma wf_ndarray_def) (simp add: eval_simps)
qed

text \<open>
  Claim C8, amended. For a training fraction between 0 and 1 and fewer than
  \<open>2 ^ 53\<close> rows, an input with at least two columns never raises, and one with
  fewer raises \<^verbatim>\<open>IndexError\<close>: there is no error path beyond the shape. Division by
  zero is not an error path, it gives \<^verbatim>\<open>nan\<close> or an infinity.
\<close>

theorem completes_without_exception:
  assumes "0 \<le> r" and "r \<le> 1" and "length (rows data) < 2 ^ 53"
  shows "(2 \<le> ncols data \<longrightarrow> (\<exists>res. split_and_preprocess data (Fin r) = Inr res))
       \<and> (ncols data < 2 \<longrightarrow> split_and_preprocess data (Fin r) = Inl IndexError)"
proof -
  from split_point_unit [OF assms]
  obtain y :: real where sp: "split_point (length (rows data)) (Fin r) = Inr \<lfloor>y\<rfloor>"
    by blast
  have "\<exists>res. split_and_preprocess data (Fin r) = Inr res" if "2 \<le> ncols data"
    using split_and_preprocess_returns [OF sp that] by (simp add: Let_def)
  moreover have "split_and_preprocess data (Fin r) = Inl IndexError" if "ncols data < 2"
    using sp that by (rule split_and_preprocess_raises)
  ultimately show ?thesis by blast
qed

theorem completes_without_exception_witness:
  "(0::real) \<le> 1 / 2 \<and> (1::real) / 2 \<le> 1 \<and> (4::nat) < 2 ^ 53 \<and> (2::nat) < 2 ^ 53
 \<and> (\<exists>res. split_and_preprocess
           \<lparr>ncols = 3, rows = [[Fin 1, Fin 2, Fin 5], [Fin (- 1), Fin 2, Fin 6],
                              [Fin 0, Fin 3, Fin 7], [Fin 0, Fin 1, Fin 8]]\<rparr> (Fin (1 / 2))
         = Inr res)
 \<and> split_and_preprocess \<lparr>ncols = 1, rows = [[Fin 5], [Fin 6]]\<rparr> (Fin (1 / 2)) = Inl IndexError"
proof -
  let ?d = "\<lparr>ncols = 3, rows = [[Fin 1, Fin 2, Fin 5], [Fin (- 1), Fin 2, Fin 6],
                               [Fin 0, Fin 3, Fin 7], [Fin 0, Fin 1, Fin 8]]\<rparr>"
  let ?d1 = "\<lparr>ncols = 1, rows = [[Fin 5], [Fin 6]]\<rparr>"
  have r: "(0::real) \<le> 1 / 2" "(1::real) / 2 \<le> 1" by simp_all
  have n: "length (rows ?d) < 2 ^ 53" and n1: "length (rows ?d1) < 2 ^ 53" by simp_all
  have c: "(2::nat) \<le> ncols ?d" and c1: "ncols ?d1 < 2" by simp_all
  from completes_without_exception [OF r n] c
  have "\<exists>res. split_and_preprocess ?d (Fin (1 / 2)) = Inr res" by blast
  moreover from completes_without_exception [OF r n1] c1
  have "split_and_preprocess ?d1 (Fin (1 / 2)) = Inl IndexError" by blast
  ultimately show ?thesis by simp
qed

end
